theory Spec2Isabelle
  imports Complex_Main
begin

section \<open>The browser runtime the games rely on\<close>

text \<open>
  The games are plain scripts over global variables. Each game is modelled as a record of
  its globals, extending a record of the pieces of the browser that the scripts touch:
  the active timers (\<open>setInterval\<close>, \<open>setTimeout\<close>, \<open>clearInterval\<close>), the one
  \<open>localStorage\<close> key of the game, and the position in the sequence of values that
  \<open>Math.random()\<close> returns. That sequence is a parameter \<open>rnd :: nat \<Rightarrow> rat\<close> of every
  function that draws from it. A JavaScript number is modelled by the rational that the
  double denotes (scores and counters by naturals). Where a statement depends on how the
  runtime rounds a sum or a product of doubles, that operation is a parameter of the
  function (\<open>mul\<close> in Whack-a-Mole, \<open>add\<close> and \<open>sub\<close> in \<open>updatePlayer\<close> and the
  game loop that calls it); elsewhere
  sums and products are taken exactly, and no statement depends on their rounding.
  Drawing on the canvas and writing \<open>textContent\<close> change no variable of the scripts and
  are left out. The variables that several games declare
  under the same name (\<open>gameRunning\<close>, \<open>score\<close>, \<open>highScore\<close>, \<open>gameLoop\<close>,
  \<open>gameSpeed\<close>) are fields of common parent records.
\<close>

datatype js_error = TypeError

datatype timer_kind = Interval | Timeout

record js_timer =
  handle :: nat
  kind :: timer_kind
  delay :: rat

record browser =
  timers :: "js_timer list"
  nextHandle :: nat
  rpos :: nat
  stored :: "string option"

definition setTimer :: "timer_kind \<Rightarrow> rat \<Rightarrow> 'a browser_scheme \<Rightarrow> 'a browser_scheme" where
  "setTimer k d b =
     b\<lparr>timers := timers b @ [\<lparr>handle = nextHandle b, kind = k, delay = d\<rparr>],
       nextHandle := nextHandle b + 1\<rparr>"

text \<open>\<open>clearInterval(h)\<close>; a handle that is still \<open>undefined\<close> clears nothing.\<close>

definition clearTimer :: "nat option \<Rightarrow> 'a browser_scheme \<Rightarrow> 'a browser_scheme" where
  "clearTimer h b =
     (case h of None \<Rightarrow> b
      | Some i \<Rightarrow> b\<lparr>timers := filter (\<lambda>t. handle t \<noteq> i) (timers b)\<rparr>)"

definition isActive :: "nat option \<Rightarrow> 'a browser_scheme \<Rightarrow> bool" where
  "isActive h b = (case h of None \<Rightarrow> False | Some i \<Rightarrow> i \<in> handle ` set (timers b))"

record session = browser +
  gameRunning :: bool

subsection \<open>The high score variable\<close>

text \<open>
  \<open>let highScore = localStorage.getItem(key) || 0\<close>: \<open>getItem\<close> returns \<open>null\<close> or the
  stored string, and \<open>||\<close> replaces a falsy value (\<open>null\<close>, the empty string) by the number
  0. So the variable holds a number or a string.
\<close>

datatype jsval = JNum nat | JStr string

fun loadHighScore :: "string option \<Rightarrow> jsval" where
  "loadHighScore None = JNum 0"
| "loadHighScore (Some s) = (if s = [] then JNum 0 else JStr s)"

text \<open>
  \<open>score > highScore\<close> converts a string operand to a number. The conversion is modelled
  on unsigned decimal numerals, the form \<open>setItem\<close> writes for a score (the empty
  string converts to 0); every other string is taken as not a number (\<open>None\<close>), and a
  comparison with it is false. Signed, fractional and whitespace-padded numerals are
  outside the model, and no statement below depends on them.
\<close>

definition digitOf :: "char \<Rightarrow> nat option" where
  "digitOf c =
     (if of_char c \<ge> (48::nat) \<and> of_char c \<le> (57::nat) then Some (of_char c - 48) else None)"

fun decimalFrom :: "nat \<Rightarrow> string \<Rightarrow> nat option" where
  "decimalFrom acc [] = Some acc"
| "decimalFrom acc (c # cs) =
     (case digitOf c of None \<Rightarrow> None | Some d \<Rightarrow> decimalFrom (10 * acc + d) cs)"

fun toNumber :: "jsval \<Rightarrow> nat option" where
  "toNumber (JNum n) = Some n"
| "toNumber (JStr s) = decimalFrom 0 s"

definition jsGreater :: "nat \<Rightarrow> jsval \<Rightarrow> bool" where
  "jsGreater n v = (case toNumber v of None \<Rightarrow> False | Some h \<Rightarrow> h < n)"

text \<open>\<open>setItem(key, n)\<close> stores the decimal numeral of the number.\<close>

definition digitChar :: "nat \<Rightarrow> char" where
  "digitChar d = char_of (48 + d)"

fun numToString :: "nat \<Rightarrow> string" where
  "numToString n =
     (if n < 10 then [digitChar n] else numToString (n div 10) @ [digitChar (n mod 10)])"

declare numToString.simps [simp del]

text \<open>The update that follows every increment of the score, in all three games.\<close>

definition updateHighScore :: "nat \<Rightarrow> jsval \<Rightarrow> string option \<Rightarrow> jsval \<times> string option" where
  "updateHighScore sc hs sto =
     (if jsGreater sc hs then (JNum sc, Some (numToString sc)) else (hs, sto))"

record scored = session +
  score :: nat
  highScore :: jsval

record looped = scored +
  gameLoop :: "nat option"
  gameSpeed :: rat

subsection \<open>Drawing from \<open>Math.random()\<close>\<close>

text \<open>
  \<open>Math.floor(Math.random() * n)\<close> for the value \<open>r\<close> that \<open>Math.random()\<close> returned, with
  the runtime's product of two doubles as the parameter \<open>mul\<close>.
\<close>

definition floorProduct :: "(rat \<Rightarrow> rat \<Rightarrow> rat) \<Rightarrow> rat \<Rightarrow> rat \<Rightarrow> int" where
  "floorProduct mul r n = \<lfloor>mul r n\<rfloor>"

text \<open>
  The same with the product taken exactly, in Snake, Endless Runner and the Image Puzzle,
  where no statement depends on how the product of a draw is rounded.
\<close>

definition randomBelow :: "rat \<Rightarrow> rat \<Rightarrow> int" where
  "randomBelow r n = \<lfloor>r * n\<rfloor>"

section \<open>Whack-a-Mole (\<open>js/whack-a-mole.js\<close>)\<close>

record mole =
  active :: bool
  whacked :: bool

record whack_game = scored +
  timeLeft :: int
  gameTimer :: "nat option"
  moleTimer :: "nat option"
  moles :: "mole list"

definition hideMole :: "mole \<Rightarrow> mole" where
  "hideMole m = m\<lparr>active := False, whacked := False\<rparr>"

text \<open>The globals as the script declares them, before \<open>DOMContentLoaded\<close>.\<close>

definition whackInit :: "string option \<Rightarrow> whack_game" where
  "whackInit sto =
     \<lparr>timers = [], nextHandle = 1, rpos = 0, stored = sto, gameRunning = False,
      score = 0, highScore = loadHighScore sto,
      timeLeft = 30, gameTimer = None, moleTimer = None, moles = []\<rparr>"

definition createMoleGrid :: "whack_game \<Rightarrow> whack_game" where
  "createMoleGrid st = st\<lparr>moles := replicate 9 \<lparr>active = False, whacked = False\<rparr>\<rparr>"

definition whackResetGame :: "whack_game \<Rightarrow> whack_game" where
  "whackResetGame st =
     (let st1 = clearTimer (gameTimer st) st;
          st2 = clearTimer (moleTimer st1) st1
      in st2\<lparr>score := 0, timeLeft := 30, gameRunning := False,
             moles := map hideMole (moles st2)\<rparr>)"

text \<open>
  \<open>Math.floor(Math.random() * (maxTime - minTime)) + minTime\<close> with \<open>minTime = 600\<close> and
  \<open>maxTime = 1500\<close>.
\<close>

definition randomTime :: "(rat \<Rightarrow> rat \<Rightarrow> rat) \<Rightarrow> rat \<Rightarrow> int" where
  "randomTime mul r = floorProduct mul r (1500 - 600) + 600"

text \<open>
  \<open>showRandomMole\<close>: \<open>moles[randomIndex]\<close> is \<open>undefined\<close> outside the array, and
  \<open>undefined.classList\<close> throws.
\<close>

definition showRandomMole ::
  "(rat \<Rightarrow> rat \<Rightarrow> rat) \<Rightarrow> (nat \<Rightarrow> rat) \<Rightarrow> whack_game \<Rightarrow> js_error + whack_game" where
  "showRandomMole mul rnd st =
     (let hidden = map hideMole (moles st);
          randomIndex = floorProduct mul (rnd (rpos st)) (of_nat (length hidden))
      in if randomIndex < 0 \<or> int (length hidden) \<le> randomIndex then Inl TypeError
         else
           let i = nat randomIndex;
               shown = hidden[i := (hidden ! i)\<lparr>active := True\<rparr>];
               t = randomTime mul (rnd (rpos st + 1));
               st1 = st\<lparr>moles := shown, rpos := rpos st + 2\<rparr>
           in Inr ((setTimer Timeout (of_int t) st1)\<lparr>moleTimer := Some (nextHandle st1)\<rparr>))"

text \<open>The callback given to \<open>setTimeout\<close> in \<open>showRandomMole\<close>.\<close>

definition moleTimerCallback ::
  "(rat \<Rightarrow> rat \<Rightarrow> rat) \<Rightarrow> (nat \<Rightarrow> rat) \<Rightarrow> whack_game \<Rightarrow> js_error + whack_game" where
  "moleTimerCallback mul rnd st =
     (if gameRunning st then showRandomMole mul rnd st else Inr st)"

text \<open>
  The runtime drops a timeout when it fires and then runs its callback; \<open>h\<close> is the handle
  of the timeout that fires.
\<close>

definition fireMoleTimer ::
  "(rat \<Rightarrow> rat \<Rightarrow> rat) \<Rightarrow> (nat \<Rightarrow> rat) \<Rightarrow> nat \<Rightarrow> whack_game \<Rightarrow> js_error + whack_game" where
  "fireMoleTimer mul rnd h st = moleTimerCallback mul rnd (clearTimer (Some h) st)"

definition whackEndGame :: "whack_game \<Rightarrow> whack_game" where
  "whackEndGame st =
     (let st1 = clearTimer (gameTimer st) st;
          st2 = clearTimer (moleTimer st1) st1
      in st2\<lparr>gameRunning := False\<rparr>)"

text \<open>The callback given to \<open>setInterval\<close> in \<open>startGame\<close>: the countdown.\<close>

definition gameTimerCallback :: "whack_game \<Rightarrow> whack_game" where
  "gameTimerCallback st =
     (let st1 = st\<lparr>timeLeft := timeLeft st - 1\<rparr>
      in if timeLeft st1 \<le> 0 then whackEndGame st1 else st1)"

definition whackStartGame ::
  "(rat \<Rightarrow> rat \<Rightarrow> rat) \<Rightarrow> (nat \<Rightarrow> rat) \<Rightarrow> whack_game \<Rightarrow> js_error + whack_game" where
  "whackStartGame mul rnd st =
     (if gameRunning st then Inr st
      else
        let st1 = whackResetGame st;
            st2 = st1\<lparr>gameRunning := True\<rparr>;
            st3 = (setTimer Interval 1000 st2)\<lparr>gameTimer := Some (nextHandle st2)\<rparr>
        in showRandomMole mul rnd st3)"

definition whackMole :: "nat \<Rightarrow> whack_game \<Rightarrow> whack_game" where
  "whackMole i st =
     (let sc = score st + 1;
          ms = (moles st)[i := (moles st ! i)\<lparr>whacked := True, active := False\<rparr>];
          (hs, sto) = updateHighScore sc (highScore st) (stored st)
      in st\<lparr>score := sc, moles := ms, highScore := hs, stored := sto\<rparr>)"

text \<open>The click handler of mole \<open>i\<close>, one of the elements of \<open>moles\<close>.\<close>

definition moleClick :: "nat \<Rightarrow> whack_game \<Rightarrow> whack_game" where
  "moleClick i st =
     (if i < length (moles st) \<and> gameRunning st \<and> active (moles st ! i)
         \<and> \<not> whacked (moles st ! i)
      then whackMole i st else st)"

section \<open>Snake (\<open>unnamed/part_001\<close>, first script)\<close>

record 'a point =
  x :: 'a
  y :: 'a

datatype dir = Up | Down | Left | Right

text \<open>\<open>food\<close> starts as the object \<open>{}\<close>, whose \<open>x\<close> and \<open>y\<close> are \<open>undefined\<close>: \<open>None\<close>.\<close>

record snake_game = looped +
  snake :: "int point list"
  food :: "int point option"
  direction :: dir
  newDirection :: dir

definition snakeInit :: "string option \<Rightarrow> snake_game" where
  "snakeInit sto =
     \<lparr>timers = [], nextHandle = 1, rpos = 0, stored = sto, gameRunning = False,
      score = 0, highScore = loadHighScore sto, gameLoop = None, gameSpeed = 100,
      snake = [], food = None, direction = Right, newDirection = Right\<rparr>"

text \<open>
  The body of the \<open>for\<close> loop in \<open>createFood\<close>: is some segment of the snake on the cell?
\<close>

definition onSnake :: "int point list \<Rightarrow> int point \<Rightarrow> bool" where
  "onSnake sn f = list_ex (\<lambda>s. x s = x f \<and> y s = y f) sn"

text \<open>
  The \<open>while (!validPosition)\<close> loop of \<open>createFood\<close>, for a canvas of \<open>cw\<close> by \<open>ch\<close>
  pixels. Each round draws two values (\<open>foodAt\<close> is the cell they give) and the loop ends
  at the first cell that is not on the snake; when no such cell is ever drawn it does not
  return (\<open>None\<close>).
\<close>

definition foodAt :: "(nat \<Rightarrow> rat) \<Rightarrow> nat \<Rightarrow> nat \<Rightarrow> nat \<Rightarrow> int point" where
  "foodAt rnd cw ch pos =
     \<lparr>x = randomBelow (rnd pos) (of_nat cw / 10),
      y = randomBelow (rnd (pos + 1)) (of_nat ch / 10)\<rparr>"

partial_function (option) createFoodLoop ::
  "(nat \<Rightarrow> rat) \<Rightarrow> nat \<Rightarrow> nat \<Rightarrow> int point list \<Rightarrow> nat \<Rightarrow> (int point \<times> nat) option" where
  "createFoodLoop rnd cw ch sn pos =
     (let f = foodAt rnd cw ch pos
      in if \<not> onSnake sn f then Some (f, pos + 2)
         else createFoodLoop rnd cw ch sn (pos + 2))"

definition createFood :: "(nat \<Rightarrow> rat) \<Rightarrow> nat \<Rightarrow> nat \<Rightarrow> snake_game \<Rightarrow> snake_game option" where
  "createFood rnd cw ch st =
     (case createFoodLoop rnd cw ch (snake st) (rpos st) of
        None \<Rightarrow> None
      | Some (f, pos) \<Rightarrow> Some (st\<lparr>food := Some f, rpos := pos\<rparr>))"

definition snakeStartGame :: "(nat \<Rightarrow> rat) \<Rightarrow> nat \<Rightarrow> nat \<Rightarrow> snake_game \<Rightarrow> snake_game option" where
  "snakeStartGame rnd cw ch st =
     (if gameRunning st then Some st
      else
        case createFood rnd cw ch (st\<lparr>snake := [\<lparr>x = 10, y = 10\<rparr>, \<lparr>x = 9, y = 10\<rparr>, \<lparr>x = 8, y = 10\<rparr>]\<rparr>) of
          None \<Rightarrow> None
        | Some st1 \<Rightarrow>
            let st2 = st1\<lparr>score := 0, direction := Right, newDirection := Right,
                         gameRunning := True\<rparr>
            in Some ((setTimer Interval (gameSpeed st2) st2)\<lparr>gameLoop := Some (nextHandle st2)\<rparr>))"

definition snakeResetGame :: "snake_game \<Rightarrow> snake_game" where
  "snakeResetGame st = (clearTimer (gameLoop st) st)\<lparr>gameRunning := False, score := 0\<rparr>"

text \<open>The \<open>keydown\<close> handler; \<open>key\<close> is \<open>event.key\<close>.\<close>

definition changeDirection :: "string \<Rightarrow> snake_game \<Rightarrow> snake_game" where
  "changeDirection key st =
     (if key = ''ArrowUp'' \<and> direction st \<noteq> Down then st\<lparr>newDirection := Up\<rparr>
      else if key = ''ArrowDown'' \<and> direction st \<noteq> Up then st\<lparr>newDirection := Down\<rparr>
      else if key = ''ArrowLeft'' \<and> direction st \<noteq> Right then st\<lparr>newDirection := Left\<rparr>
      else if key = ''ArrowRight'' \<and> direction st \<noteq> Left then st\<lparr>newDirection := Right\<rparr>
      else st)"

definition checkCollision :: "nat \<Rightarrow> nat \<Rightarrow> int point list \<Rightarrow> int point \<Rightarrow> bool" where
  "checkCollision cw ch sn h =
     (if x h < 0 \<or> of_int (x h) \<ge> (of_nat cw / 10 :: rat)
         \<or> y h < 0 \<or> of_int (y h) \<ge> (of_nat ch / 10 :: rat) then True
      else list_ex (\<lambda>s. x h = x s \<and> y h = y s) (drop 1 sn))"

definition snakeGameOver :: "snake_game \<Rightarrow> snake_game" where
  "snakeGameOver st = (clearTimer (gameLoop st) st)\<lparr>gameRunning := False\<rparr>"

definition moveHead :: "dir \<Rightarrow> int point \<Rightarrow> int point" where
  "moveHead d h =
     (case d of Up \<Rightarrow> h\<lparr>y := y h - 1\<rparr> | Down \<Rightarrow> h\<lparr>y := y h + 1\<rparr>
      | Left \<Rightarrow> h\<lparr>x := x h - 1\<rparr> | Right \<Rightarrow> h\<lparr>x := x h + 1\<rparr>)"

text \<open>
  \<open>gameUpdate\<close>, the callback of the interval timer. The outer \<open>None\<close> is a
  \<open>createFood\<close> that does not return; \<open>snake[0].x\<close> throws on an empty snake.
\<close>

definition snakeGameUpdate ::
  "(nat \<Rightarrow> rat) \<Rightarrow> nat \<Rightarrow> nat \<Rightarrow> snake_game \<Rightarrow> (js_error + snake_game) option" where
  "snakeGameUpdate rnd cw ch st =
     (let st1 = st\<lparr>direction := newDirection st\<rparr>
      in case snake st1 of
           [] \<Rightarrow> Some (Inl TypeError)
         | s0 # _ \<Rightarrow>
             let head = moveHead (direction st1) \<lparr>x = x s0, y = y s0\<rparr>
             in if checkCollision cw ch (snake st1) head then Some (Inr (snakeGameOver st1))
                else
                  let st2 = st1\<lparr>snake := head # snake st1\<rparr>
                  in if Some (x head) = map_option x (food st2)
                        \<and> Some (y head) = map_option y (food st2)
                     then
                       let sc = score st2 + 1;
                           (hs, sto) = updateHighScore sc (highScore st2) (stored st2);
                           st3 = st2\<lparr>score := sc, highScore := hs, stored := sto\<rparr>
                       in map_option Inr (createFood rnd cw ch st3)
                     else Some (Inr (st2\<lparr>snake := butlast (snake st2)\<rparr>)))"

section \<open>Endless Runner (\<open>js/runner.js\<close>)\<close>

record 'a box = "'a point" +
  width :: 'a
  height :: 'a

record player_obj = "rat box" +
  jumping :: bool
  jumpHeight :: rat
  jumpVelocity :: rat
  gravity :: rat

record cloud = "rat box" +
  speed :: rat

record runner_game = looped +
  player :: player_obj
  obstacles :: "rat box list"
  ground :: rat
  spawnRate :: nat
  frameCount :: nat
  clouds :: "cloud list"

text \<open>
  The globals as the script declares them. The literal \<open>0.8\<close> of \<open>gravity\<close> is the double
  nearest to eight tenths, \<open>3602879701896397 / 2\<^sup>5\<^sup>2\<close>.
\<close>

definition runnerInit :: "string option \<Rightarrow> runner_game" where
  "runnerInit sto =
     \<lparr>timers = [], nextHandle = 1, rpos = 0, stored = sto, gameRunning = False,
      score = 0, highScore = loadHighScore sto, gameLoop = None, gameSpeed = 5,
      player = \<lparr>x = 50, y = 0, width = 40, height = 50, jumping = False, jumpHeight = 15,
                jumpVelocity = 0, gravity = 3602879701896397 / 4503599627370496\<rparr>,
      obstacles = [], ground = 0, spawnRate = 100, frameCount = 0, clouds = []\<rparr>"

text \<open>
  \<open>createCloud(isInitial)\<close> for a canvas \<open>cw\<close> pixels wide, drawing from position \<open>pos\<close>:
  the cloud and the position after the draws (four when \<open>isInitial\<close>, else three).
\<close>

definition newCloud :: "(nat \<Rightarrow> rat) \<Rightarrow> nat \<Rightarrow> bool \<Rightarrow> nat \<Rightarrow> cloud \<times> nat" where
  "newCloud rnd cw isInitial pos =
     (let cy = of_int (randomBelow (rnd pos) 150 + 20);
          w = of_int (randomBelow (rnd (pos + 1)) 60 + 40)
      in if isInitial
         then (\<lparr>x = rnd (pos + 2) * of_nat cw, y = cy, width = w, height = w * (6 / 10),
                speed = rnd (pos + 3) * 1 + 5 / 10\<rparr>, pos + 4)
         else (\<lparr>x = of_nat cw, y = cy, width = w, height = w * (6 / 10),
                speed = rnd (pos + 2) * 1 + 5 / 10\<rparr>, pos + 3))"

definition createCloud :: "(nat \<Rightarrow> rat) \<Rightarrow> nat \<Rightarrow> bool \<Rightarrow> runner_game \<Rightarrow> runner_game" where
  "createCloud rnd cw isInitial st =
     (let (c, pos) = newCloud rnd cw isInitial (rpos st)
      in st\<lparr>clouds := clouds st @ [c], rpos := pos\<rparr>)"

text \<open>The \<open>DOMContentLoaded\<close> handler, for a canvas of \<open>cw\<close> by \<open>ch\<close> pixels.\<close>

definition runnerLoaded :: "(nat \<Rightarrow> rat) \<Rightarrow> nat \<Rightarrow> nat \<Rightarrow> runner_game \<Rightarrow> runner_game" where
  "runnerLoaded rnd cw ch st =
     (let g = of_nat ch - 50;
          st1 = st\<lparr>ground := g, player := (player st)\<lparr>y := g - height (player st)\<rparr>\<rparr>
      in ((createCloud rnd cw True) ^^ 5) st1)"

definition runnerStartGame :: "runner_game \<Rightarrow> runner_game" where
  "runnerStartGame st =
     (if gameRunning st then st
      else
        let p = (player st)\<lparr>y := ground st - height (player st), jumping := False,
                            jumpVelocity := 0\<rparr>;
            st1 = st\<lparr>player := p, obstacles := [], score := 0, gameSpeed := 5,
                     frameCount := 0, gameRunning := True\<rparr>
        in (setTimer Interval (1000 / 60) st1)\<lparr>gameLoop := Some (nextHandle st1)\<rparr>)"

definition runnerResetGame :: "runner_game \<Rightarrow> runner_game" where
  "runnerResetGame st = (clearTimer (gameLoop st) st)\<lparr>gameRunning := False, score := 0\<rparr>"

definition jump :: "player_obj \<Rightarrow> player_obj" where
  "jump p = (if \<not> jumping p then p\<lparr>jumping := True, jumpVelocity := - jumpHeight p\<rparr> else p)"

text \<open>The \<open>keydown\<close> handler; \<open>code\<close> is \<open>e.code\<close>.\<close>

definition runnerKeydown :: "string \<Rightarrow> runner_game \<Rightarrow> runner_game" where
  "runnerKeydown code st =
     (if code = ''Space'' \<and> gameRunning st then st\<lparr>player := jump (player st)\<rparr> else st)"

text \<open>
  \<open>updatePlayer\<close>, with the runtime's sum and difference of two doubles as the parameters
  \<open>add\<close> and \<open>sub\<close>, and the global \<open>ground\<close> as \<open>g\<close>.
\<close>

definition updatePlayer ::
  "(rat \<Rightarrow> rat \<Rightarrow> rat) \<Rightarrow> (rat \<Rightarrow> rat \<Rightarrow> rat) \<Rightarrow> rat \<Rightarrow> player_obj \<Rightarrow> player_obj" where
  "updatePlayer add sub g p =
     (if jumping p then
        let p1 = p\<lparr>jumpVelocity := add (jumpVelocity p) (gravity p)\<rparr>;
            p2 = p1\<lparr>y := add (y p1) (jumpVelocity p1)\<rparr>
        in if y p2 \<ge> sub g (height p2)
           then p2\<lparr>y := sub g (height p2), jumping := False, jumpVelocity := 0\<rparr>
           else p2
      else p)"

text \<open>
  The loop of \<open>updateObstacles\<close>: every obstacle moves left by \<open>gameSpeed\<close>, and one that
  has left the screen is spliced out (the index then stays on the next obstacle).
\<close>

fun updateObstacles :: "rat \<Rightarrow> rat box list \<Rightarrow> rat box list" where
  "updateObstacles gs [] = []"
| "updateObstacles gs (ob # rest) =
     (let ob1 = ob\<lparr>x := x ob - gs\<rparr>
      in if x ob1 + width ob1 < 0 then updateObstacles gs rest
         else ob1 # updateObstacles gs rest)"

text \<open>
  The loop of \<open>updateClouds\<close>, with the clouds before the index in \<open>seen\<close> and those from
  the index on in \<open>todo\<close>. A cloud that has left the screen is spliced out and a new one
  is pushed at the end of the array, where the loop will reach it; the loop returns only
  if it runs out of clouds to visit.
\<close>

partial_function (option) updateCloudsLoop ::
  "(nat \<Rightarrow> rat) \<Rightarrow> nat \<Rightarrow> cloud list \<Rightarrow> cloud list \<Rightarrow> nat \<Rightarrow> (cloud list \<times> nat) option" where
  "updateCloudsLoop rnd cw seen todo pos =
     (case todo of
        [] \<Rightarrow> Some (seen, pos)
      | c # rest \<Rightarrow>
          let c1 = c\<lparr>x := x c - speed c\<rparr>
          in if x c1 + width c1 < 0
             then updateCloudsLoop rnd cw seen (rest @ [fst (newCloud rnd cw False pos)])
                    (snd (newCloud rnd cw False pos))
             else updateCloudsLoop rnd cw (seen @ [c1]) rest pos)"

definition updateClouds :: "(nat \<Rightarrow> rat) \<Rightarrow> nat \<Rightarrow> runner_game \<Rightarrow> runner_game option" where
  "updateClouds rnd cw st =
     (case updateCloudsLoop rnd cw [] (clouds st) (rpos st) of
        None \<Rightarrow> None
      | Some (cs, pos) \<Rightarrow> Some (st\<lparr>clouds := cs, rpos := pos\<rparr>))"

definition createObstacle :: "(nat \<Rightarrow> rat) \<Rightarrow> nat \<Rightarrow> runner_game \<Rightarrow> runner_game" where
  "createObstacle rnd cw st =
     (let h = of_int (randomBelow (rnd (rpos st)) 30 + 20)
      in st\<lparr>obstacles := obstacles st @ [\<lparr>x = of_nat cw, y = ground st - h, width = 20, height = h\<rparr>],
            rpos := rpos st + 1\<rparr>)"

definition runnerGameOver :: "runner_game \<Rightarrow> runner_game" where
  "runnerGameOver st = (clearTimer (gameLoop st) st)\<lparr>gameRunning := False\<rparr>"

definition collides :: "player_obj \<Rightarrow> rat box \<Rightarrow> bool" where
  "collides p ob =
     (x p < x ob + width ob \<and> x p + width p > x ob
      \<and> y p < y ob + height ob \<and> y p + height p > y ob)"

definition checkCollisions :: "runner_game \<Rightarrow> runner_game" where
  "checkCollisions st =
     (if list_ex (collides (player st)) (obstacles st) then runnerGameOver st else st)"

text \<open>
  The part of \<open>gameUpdate\<close> after the frame counter is incremented. \<open>n % 0\<close> is \<open>NaN\<close>,
  which is not \<open>=== 0\<close>.
\<close>

definition runnerScoreStep :: "runner_game \<Rightarrow> runner_game" where
  "runnerScoreStep st =
     (if frameCount st mod 10 = 0 then
        let sc = score st + 1;
            (hs, sto) = updateHighScore sc (highScore st) (stored st)
        in st\<lparr>score := sc, highScore := hs, stored := sto\<rparr>
      else st)"

definition runnerSpeedStep :: "runner_game \<Rightarrow> runner_game" where
  "runnerSpeedStep st =
     (if frameCount st mod 500 = 0 then st\<lparr>gameSpeed := gameSpeed st + 5 / 10\<rparr> else st)"

definition runnerSpawnStep :: "(nat \<Rightarrow> rat) \<Rightarrow> nat \<Rightarrow> runner_game \<Rightarrow> runner_game" where
  "runnerSpawnStep rnd cw st =
     (if spawnRate st \<noteq> 0 \<and> frameCount st mod spawnRate st = 0 then
        let st1 = createObstacle rnd cw st
        in if spawnRate st1 > 60 then st1\<lparr>spawnRate := spawnRate st1 - 5\<rparr> else st1
      else st)"

text \<open>
  \<open>gameUpdate\<close>, the callback of the interval timer, with the sum and the difference
  that \<open>updatePlayer\<close> takes as the parameters \<open>add\<close> and \<open>sub\<close>.
\<close>

definition runnerGameUpdate ::
  "(rat \<Rightarrow> rat \<Rightarrow> rat) \<Rightarrow> (rat \<Rightarrow> rat \<Rightarrow> rat) \<Rightarrow> (nat \<Rightarrow> rat) \<Rightarrow> nat \<Rightarrow> runner_game
     \<Rightarrow> runner_game option" where
  "runnerGameUpdate add sub rnd cw st =
     (case updateClouds rnd cw st of
        None \<Rightarrow> None
      | Some st1 \<Rightarrow>
          let st2 = st1\<lparr>player := updatePlayer add sub (ground st1) (player st1)\<rparr>;
              st3 = st2\<lparr>obstacles := updateObstacles (gameSpeed st2) (obstacles st2)\<rparr>;
              st4 = st3\<lparr>frameCount := frameCount st3 + 1\<rparr>
          in Some (checkCollisions (runnerSpawnStep rnd cw (runnerSpeedStep (runnerScoreStep st4)))))"

section \<open>Image Puzzle (\<open>js/puzzle.js\<close>)\<close>

text \<open>
  A tile element never leaves its place in \<open>grid\<close> (\<open>swapTiles\<close> stores each element
  back where it was), so an element is identified with its place. What changes is its class
  \<open>empty\<close> and its \<open>innerHTML\<close>: the image piece, identified by the two percentages of its
  \<open>backgroundPosition\<close>, or nothing. The style is taken to read back as it was written.
  \<open>tileSize\<close> only lays the tiles out and is left out.
\<close>

record tile =
  isEmpty :: bool
  content :: "(rat \<times> rat) option"

record cellpos =
  row :: nat
  col :: nat

record puzzle_game = session +
  grid :: "tile list list"
  emptyTile :: cellpos
  gridSize :: nat
  moves :: nat
  timer :: nat
  timerInterval :: "nat option"

definition puzzleInit :: puzzle_game where
  "puzzleInit =
     \<lparr>timers = [], nextHandle = 1, rpos = 0, stored = None, gameRunning = False,
      grid = [], emptyTile = \<lparr>row = 0, col = 0\<rparr>, gridSize = 4, moves = 0, timer = 0,
      timerInterval = None\<rparr>"

text \<open>The \<open>change\<close> handler of the difficulty selector.\<close>

definition setDifficulty :: "nat \<Rightarrow> puzzle_game \<Rightarrow> puzzle_game" where
  "setDifficulty n st = st\<lparr>gridSize := n\<rparr>"

text \<open>The tile that \<open>createGrid\<close> makes at \<open>(r, c)\<close>.\<close>

definition newTile :: "nat \<Rightarrow> nat \<Rightarrow> nat \<Rightarrow> tile" where
  "newTile gs r c =
     (if r = gs - 1 \<and> c = gs - 1 then \<lparr>isEmpty = True, content = None\<rparr>
      else \<lparr>isEmpty = False,
            content = Some (of_nat c * 100 / (of_nat gs - 1), of_nat r * 100 / (of_nat gs - 1))\<rparr>)"

definition createGrid :: "puzzle_game \<Rightarrow> puzzle_game" where
  "createGrid st =
     (let gs = gridSize st
      in st\<lparr>grid := map (\<lambda>r. map (\<lambda>c. newTile gs r c) [0..<gs]) [0..<gs],
            emptyTile := (if gs = 0 then emptyTile st else \<lparr>row = gs - 1, col = gs - 1\<rparr>)\<rparr>)"

definition puzzleResetGame :: "puzzle_game \<Rightarrow> puzzle_game" where
  "puzzleResetGame st =
     createGrid ((clearTimer (timerInterval st) st)\<lparr>moves := 0, timer := 0, gameRunning := False\<rparr>)"

definition getAdjacentTiles :: "puzzle_game \<Rightarrow> cellpos list" where
  "getAdjacentTiles st =
     (let r = row (emptyTile st); c = col (emptyTile st)
      in (if r > 0 then [\<lparr>row = r - 1, col = c\<rparr>] else [])
       @ (if int c < int (gridSize st) - 1 then [\<lparr>row = r, col = c + 1\<rparr>] else [])
       @ (if int r < int (gridSize st) - 1 then [\<lparr>row = r + 1, col = c\<rparr>] else [])
       @ (if c > 0 then [\<lparr>row = r, col = c - 1\<rparr>] else []))"

definition inGrid :: "tile list list \<Rightarrow> nat \<Rightarrow> nat \<Rightarrow> bool" where
  "inGrid g r c = (r < length g \<and> c < length (g ! r))"

definition tileAt :: "tile list list \<Rightarrow> nat \<Rightarrow> nat \<Rightarrow> tile" where
  "tileAt g r c = g ! r ! c"

definition setTile :: "tile list list \<Rightarrow> nat \<Rightarrow> nat \<Rightarrow> tile \<Rightarrow> tile list list" where
  "setTile g r c t = g[r := (g ! r)[c := t]]"

text \<open>
  \<open>swapTiles(row, col)\<close>: the four writes to the two elements, in the order of the source.
  \<open>grid[row][col]\<close> outside the grid is \<open>undefined\<close>, and reading its \<open>innerHTML\<close> throws.
\<close>

definition swapTiles :: "nat \<Rightarrow> nat \<Rightarrow> puzzle_game \<Rightarrow> js_error + puzzle_game" where
  "swapTiles r c st =
     (let er = row (emptyTile st); ec = col (emptyTile st); g = grid st
      in if \<not> inGrid g r c \<or> \<not> inGrid g er ec then Inl TypeError
         else
           let tileContent = content (tileAt g r c);
               g1 = setTile g r c ((tileAt g r c)\<lparr>content := None\<rparr>);
               g2 = setTile g1 er ec ((tileAt g1 er ec)\<lparr>content := tileContent\<rparr>);
               g3 = setTile g2 r c ((tileAt g2 r c)\<lparr>isEmpty := True\<rparr>);
               g4 = setTile g3 er ec ((tileAt g3 er ec)\<lparr>isEmpty := False\<rparr>)
           in Inr (st\<lparr>grid := g4, emptyTile := \<lparr>row = r, col = c\<rparr>\<rparr>))"

text \<open>
  The loop of \<open>shuffleGrid\<close>, \<open>n\<close> rounds to go. Destructuring
  \<open>adjacentTiles[randomIndex]\<close> throws when the index is outside the array.
\<close>

fun shuffleLoop :: "(nat \<Rightarrow> rat) \<Rightarrow> nat \<Rightarrow> puzzle_game \<Rightarrow> js_error + puzzle_game" where
  "shuffleLoop rnd 0 st = Inr st"
| "shuffleLoop rnd (Suc n) st =
     (let adjacentTiles = getAdjacentTiles st;
          randomIndex = randomBelow (rnd (rpos st)) (of_nat (length adjacentTiles))
      in if randomIndex < 0 \<or> int (length adjacentTiles) \<le> randomIndex then Inl TypeError
         else
           let t = adjacentTiles ! nat randomIndex
           in case swapTiles (row t) (col t) (st\<lparr>rpos := rpos st + 1\<rparr>) of
                Inl e \<Rightarrow> Inl e
              | Inr st1 \<Rightarrow> shuffleLoop rnd n st1)"

definition shuffleGrid :: "(nat \<Rightarrow> rat) \<Rightarrow> puzzle_game \<Rightarrow> js_error + puzzle_game" where
  "shuffleGrid rnd st = shuffleLoop rnd (gridSize st * gridSize st * 10) st"

text \<open>
  \<open>isPuzzleSolved\<close>: the places in the order the two loops visit them, stopping at the
  first piece that is out of place. \<open>grid[row][col]\<close> outside the grid is \<open>undefined\<close>, and
  \<open>undefined.querySelector\<close> throws.
\<close>

fun solvedFrom :: "puzzle_game \<Rightarrow> (nat \<times> nat) list \<Rightarrow> js_error + bool" where
  "solvedFrom st [] = Inr True"
| "solvedFrom st ((r, c) # rest) =
     (let gs = gridSize st
      in if r = gs - 1 \<and> c = gs - 1 then solvedFrom st rest
         else if \<not> inGrid (grid st) r c then Inl TypeError
         else case content (tileAt (grid st) r c) of
                None \<Rightarrow> solvedFrom st rest
              | Some bgPosition \<Rightarrow>
                  if bgPosition \<noteq> (of_nat c * 100 / (of_nat gs - 1), of_nat r * 100 / (of_nat gs - 1))
                  then Inr False else solvedFrom st rest)"

definition isPuzzleSolved :: "puzzle_game \<Rightarrow> js_error + bool" where
  "isPuzzleSolved st =
     (let gs = gridSize st
      in if int (row (emptyTile st)) \<noteq> int gs - 1 \<or> int (col (emptyTile st)) \<noteq> int gs - 1
         then Inr False
         else solvedFrom st (concat (map (\<lambda>r. map (\<lambda>c. (r, c)) [0..<gs]) [0..<gs])))"

text \<open>
  \<open>gameComplete\<close>; the timeout of 500 ms that it sets only shows the message of
  congratulation.
\<close>

definition gameComplete :: "puzzle_game \<Rightarrow> puzzle_game" where
  "gameComplete st =
     setTimer Timeout 500 ((clearTimer (timerInterval st) st)\<lparr>gameRunning := False\<rparr>)"

definition moveTile :: "nat \<Rightarrow> nat \<Rightarrow> puzzle_game \<Rightarrow> js_error + puzzle_game" where
  "moveTile r c st =
     (let emptyRow = row (emptyTile st); emptyCol = col (emptyTile st)
      in if (r = emptyRow \<and> \<bar>int c - int emptyCol\<bar> = 1)
            \<or> (c = emptyCol \<and> \<bar>int r - int emptyRow\<bar> = 1)
         then
           case swapTiles r c st of
             Inl e \<Rightarrow> Inl e
           | Inr st1 \<Rightarrow>
               let st2 = st1\<lparr>moves := moves st1 + 1\<rparr>
               in (case isPuzzleSolved st2 of
                     Inl e \<Rightarrow> Inl e
                   | Inr solved \<Rightarrow> Inr (if solved then gameComplete st2 else st2))
         else Inr st)"

text \<open>The click handler of the tile element at \<open>(r, c)\<close>, a place of the grid.\<close>

definition tileClick :: "nat \<Rightarrow> nat \<Rightarrow> puzzle_game \<Rightarrow> js_error + puzzle_game" where
  "tileClick r c st = (if gameRunning st then moveTile r c st else Inr st)"

definition puzzleStartGame :: "(nat \<Rightarrow> rat) \<Rightarrow> puzzle_game \<Rightarrow> js_error + puzzle_game" where
  "puzzleStartGame rnd st =
     (if gameRunning st then Inr st
      else
        case shuffleGrid rnd (createGrid ((puzzleResetGame st)\<lparr>gameRunning := True\<rparr>)) of
          Inl e \<Rightarrow> Inl e
        | Inr st1 \<Rightarrow> Inr ((setTimer Interval 1000 st1)\<lparr>timerInterval := Some (nextHandle st1)\<rparr>))"

text \<open>The callback given to \<open>setInterval\<close> in \<open>startGame\<close>.\<close>

definition puzzleTimerCallback :: "puzzle_game \<Rightarrow> puzzle_game" where
  "puzzleTimerCallback st = st\<lparr>timer := timer st + 1\<rparr>"

section \<open>Events and runs\<close>

text \<open>
  What the browser can call in each game: the two buttons, the input handlers and the
  timer callbacks. A run applies a list of events in order and stops at the first call
  that throws; for Snake and Endless Runner the outer \<open>None\<close> is a call that does not
  return.
\<close>

datatype whack_event = WStart | WReset | WClick nat | WCountdown | WMoleExpiry nat

definition whackStep ::
  "(rat \<Rightarrow> rat \<Rightarrow> rat) \<Rightarrow> (nat \<Rightarrow> rat) \<Rightarrow> whack_event \<Rightarrow> whack_game
     \<Rightarrow> js_error + whack_game" where
  "whackStep mul rnd e st =
     (case e of
        WStart \<Rightarrow> whackStartGame mul rnd st
      | WReset \<Rightarrow> Inr (whackResetGame st)
      | WClick i \<Rightarrow> Inr (moleClick i st)
      | WCountdown \<Rightarrow> Inr (gameTimerCallback st)
      | WMoleExpiry h \<Rightarrow> fireMoleTimer mul rnd h st)"

fun whackRun ::
  "(rat \<Rightarrow> rat \<Rightarrow> rat) \<Rightarrow> (nat \<Rightarrow> rat) \<Rightarrow> whack_event list \<Rightarrow> whack_game
     \<Rightarrow> js_error + whack_game" where
  "whackRun mul rnd [] st = Inr st"
| "whackRun mul rnd (e # es) st =
     (case whackStep mul rnd e st of
        Inl err \<Rightarrow> Inl err
      | Inr st1 \<Rightarrow> whackRun mul rnd es st1)"

text \<open>
  A timeout fires only while it is pending: the events of a run are feasible when every
  expiry of the mole timer is that of a timeout in the list of timers.
\<close>

fun whackEnabled :: "whack_event \<Rightarrow> whack_game \<Rightarrow> bool" where
  "whackEnabled (WMoleExpiry h) st =
     list_ex (\<lambda>t. handle t = h \<and> kind t = Timeout) (timers st)"
| "whackEnabled _ st = True"

fun whackFeasible ::
  "(rat \<Rightarrow> rat \<Rightarrow> rat) \<Rightarrow> (nat \<Rightarrow> rat) \<Rightarrow> whack_event list \<Rightarrow> whack_game \<Rightarrow> bool" where
  "whackFeasible mul rnd [] st = True"
| "whackFeasible mul rnd (e # es) st =
     (whackEnabled e st
      \<and> (case whackStep mul rnd e st of
            Inl err \<Rightarrow> True
          | Inr st1 \<Rightarrow> whackFeasible mul rnd es st1))"

datatype snake_event = SStart | SReset | SKey string | STick

definition snakeStep ::
  "(nat \<Rightarrow> rat) \<Rightarrow> nat \<Rightarrow> nat \<Rightarrow> snake_event \<Rightarrow> snake_game \<Rightarrow> (js_error + snake_game) option" where
  "snakeStep rnd cw ch e st =
     (case e of
        SStart \<Rightarrow> map_option Inr (snakeStartGame rnd cw ch st)
      | SReset \<Rightarrow> Some (Inr (snakeResetGame st))
      | SKey k \<Rightarrow> Some (Inr (changeDirection k st))
      | STick \<Rightarrow> snakeGameUpdate rnd cw ch st)"

fun snakeRun ::
  "(nat \<Rightarrow> rat) \<Rightarrow> nat \<Rightarrow> nat \<Rightarrow> snake_event list \<Rightarrow> snake_game \<Rightarrow> (js_error + snake_game) option" where
  "snakeRun rnd cw ch [] st = Some (Inr st)"
| "snakeRun rnd cw ch (e # es) st =
     (case snakeStep rnd cw ch e st of
        None \<Rightarrow> None
      | Some (Inl err) \<Rightarrow> Some (Inl err)
      | Some (Inr st1) \<Rightarrow> snakeRun rnd cw ch es st1)"

datatype runner_event = RStart | RReset | RKey string | RFrame

definition runnerStep ::
  "(rat \<Rightarrow> rat \<Rightarrow> rat) \<Rightarrow> (rat \<Rightarrow> rat \<Rightarrow> rat) \<Rightarrow> (nat \<Rightarrow> rat) \<Rightarrow> nat \<Rightarrow> runner_event
     \<Rightarrow> runner_game \<Rightarrow> runner_game option" where
  "runnerStep add sub rnd cw e st =
     (case e of
        RStart \<Rightarrow> Some (runnerStartGame st)
      | RReset \<Rightarrow> Some (runnerResetGame st)
      | RKey k \<Rightarrow> Some (runnerKeydown k st)
      | RFrame \<Rightarrow> runnerGameUpdate add sub rnd cw st)"

fun runnerRun ::
  "(rat \<Rightarrow> rat \<Rightarrow> rat) \<Rightarrow> (rat \<Rightarrow> rat \<Rightarrow> rat) \<Rightarrow> (nat \<Rightarrow> rat) \<Rightarrow> nat \<Rightarrow> runner_event list
     \<Rightarrow> runner_game \<Rightarrow> runner_game option" where
  "runnerRun add sub rnd cw [] st = Some st"
| "runnerRun add sub rnd cw (e # es) st =
     (case runnerStep add sub rnd cw e st of None \<Rightarrow> None | Some st1 \<Rightarrow> runnerRun add sub rnd cw es st1)"

datatype puzzle_event = PStart | PReset | PClick nat nat | PTimer | PDifficulty nat

definition puzzleStep :: "(nat \<Rightarrow> rat) \<Rightarrow> puzzle_event \<Rightarrow> puzzle_game \<Rightarrow> js_error + puzzle_game" where
  "puzzleStep rnd e st =
     (case e of
        PStart \<Rightarrow> puzzleStartGame rnd st
      | PReset \<Rightarrow> Inr (puzzleResetGame st)
      | PClick r c \<Rightarrow> tileClick r c st
      | PTimer \<Rightarrow> Inr (puzzleTimerCallback st)
      | PDifficulty n \<Rightarrow> Inr (setDifficulty n st))"

fun puzzleRun :: "(nat \<Rightarrow> rat) \<Rightarrow> puzzle_event list \<Rightarrow> puzzle_game \<Rightarrow> js_error + puzzle_game" where
  "puzzleRun rnd [] st = Inr st"
| "puzzleRun rnd (e # es) st =
     (case puzzleStep rnd e st of Inl err \<Rightarrow> Inl err | Inr st1 \<Rightarrow> puzzleRun rnd es st1)"

text \<open>
  A session runs from one start to the next press of a button: its events are the input
  and timer events.
\<close>

fun whackInSession :: "whack_event \<Rightarrow> bool" where
  "whackInSession WStart = False"
| "whackInSession WReset = False"
| "whackInSession _ = True"

fun snakeInSession :: "snake_event \<Rightarrow> bool" where
  "snakeInSession SStart = False"
| "snakeInSession SReset = False"
| "snakeInSession _ = True"

fun runnerInSession :: "runner_event \<Rightarrow> bool" where
  "runnerInSession RStart = False"
| "runnerInSession RReset = False"
| "runnerInSession _ = True"

section \<open>The properties in the words of the specification\<close>

text \<open>
  The value \<open>load(gameKey)\<close> of the specification: what the stored string gives when the
  page loads it. \<open>highScoreIs h st\<close>: the high score variable and the stored value both
  are the number \<open>h\<close>.
\<close>

definition persisted :: "'a browser_scheme \<Rightarrow> nat option" where
  "persisted b = toNumber (loadHighScore (stored b))"

definition highScoreIs :: "nat \<Rightarrow> 'a scored_scheme \<Rightarrow> bool" where
  "highScoreIs h st = (toNumber (highScore st) = Some h \<and> persisted st = Some h)"

text \<open>
  During a session that started with the high score \<open>h0\<close>: the high score is the maximum
  of \<open>h0\<close> and the score so far.
\<close>

definition sessionHigh :: "nat \<Rightarrow> 'a scored_scheme \<Rightarrow> bool" where
  "sessionHigh h0 st = highScoreIs (max h0 (score st)) st"

text \<open>
  The direction a key asks for, the inverse of a direction, and the changes that a list
  of key presses queues while the snake moves in direction \<open>d\<close>: those that are not the
  inverse of \<open>d\<close>.
\<close>

definition keyDir :: "string \<Rightarrow> dir option" where
  "keyDir key =
     (if key = ''ArrowUp'' then Some Up else if key = ''ArrowDown'' then Some Down
      else if key = ''ArrowLeft'' then Some Left else if key = ''ArrowRight'' then Some Right
      else None)"

fun opposite :: "dir \<Rightarrow> dir" where
  "opposite Up = Down"
| "opposite Down = Up"
| "opposite Left = Right"
| "opposite Right = Left"

definition queued :: "dir \<Rightarrow> string list \<Rightarrow> dir list" where
  "queued d ks = filter (\<lambda>k. k \<noteq> opposite d) (List.map_filter keyDir ks)"

text \<open>
  The empty slot of the puzzle: \<open>emptyTile\<close> is a place of the grid, and a tile of the grid
  has the class \<open>empty\<close> exactly when it is at that place.
\<close>

definition uniqueEmpty :: "puzzle_game \<Rightarrow> bool" where
  "uniqueEmpty st =
     (inGrid (grid st) (row (emptyTile st)) (col (emptyTile st))
      \<and> list_all (\<lambda>r. list_all (\<lambda>c. isEmpty (tileAt (grid st) r c)
                                      = (r = row (emptyTile st) \<and> c = col (emptyTile st)))
                     [0..<length (grid st ! r)])
           [0..<length (grid st)])"

text \<open>The grid is a square of side \<open>gridSize\<close>, with \<open>emptyTile\<close> inside.\<close>

definition squareGrid :: "puzzle_game \<Rightarrow> bool" where
  "squareGrid st =
     (length (grid st) = gridSize st \<and> list_all (\<lambda>rw. length rw = gridSize st) (grid st)
      \<and> row (emptyTile st) < gridSize st \<and> col (emptyTile st) < gridSize st)"

fun difficultyOk :: "puzzle_event \<Rightarrow> bool" where
  "difficultyOk (PDifficulty n) = (1 \<le> n)"
| "difficultyOk _ = True"

text \<open>
  The timers of a session: while the game runs, the timers of the page are those whose
  handles the game holds (the interval of the game loop; in Whack-a-Mole the countdown
  interval and the mole timeout, with different handles that \<open>nextHandle\<close> has passed),
  and none is left when it does not run.
\<close>

definition loopTimerOk :: "'a looped_scheme \<Rightarrow> bool" where
  "loopTimerOk st =
     (if gameRunning st then map (\<lambda>t. Some (handle t)) (timers st) = [gameLoop st]
      else timers st = [])"

definition whackTimersOk :: "whack_game \<Rightarrow> bool" where
  "whackTimersOk st =
     (if gameRunning st
      then map (\<lambda>t. Some (handle t)) (timers st) = [gameTimer st, moleTimer st]
           \<and> map kind (timers st) = [Interval, Timeout]
           \<and> distinct (map handle (timers st))
           \<and> list_all (\<lambda>t. handle t < nextHandle st) (timers st)
      else timers st = [])"

text \<open>
  A cloud that is still on the screen after its next move, and the values that the spawn
  rate takes from its start value 100 down to its floor 60.
\<close>

definition staysOn :: "cloud \<Rightarrow> bool" where
  "staysOn c = (\<not> x c - speed c + width c < 0)"

definition spawnOk :: "nat \<Rightarrow> bool" where
  "spawnOk n = (60 \<le> n \<and> n \<le> 100 \<and> 5 dvd n)"

section \<open>Sample states\<close>

text \<open>
  A random source that always returns one half or one third, and the states that a
  first press of Start reaches with it, on a Snake canvas of 400 by 400 pixels and a
  Runner canvas of 800 by 300.
\<close>

definition halfRnd :: "nat \<Rightarrow> rat" where
  "halfRnd n = 1 / 2"

definition thirdRnd :: "nat \<Rightarrow> rat" where
  "thirdRnd n = 1 / 3"


text \<open>
  The greatest double below one third, and a product that is the double product on the
  two products that \<open>showRandomMole\<close> takes of it (with 9 and with 900, both rounded up
  to the next integer) and exact elsewhere.
\<close>

definition nearThird :: rat where
  "nearThird = 6004799503160661 / 18014398509481984"

definition nearThirdRnd :: "nat \<Rightarrow> rat" where
  "nearThirdRnd n = nearThird"

definition doubleMulSample :: "rat \<Rightarrow> rat \<Rightarrow> rat" where
  "doubleMulSample a b =
     (if a = nearThird \<and> b = 9 then 3 else if a = nearThird \<and> b = 900 then 300 else a * b)"

text \<open>
  The double sums of some ticks of a jump from the height 200 (velocity \<open>-15\<close>, gravity
  the double \<open>0.8\<close>): the first two ticks, the tick 37 on which the player lands, and a
  tick from the height 240 with velocity 14. \<open>doubleAddSample\<close> is the double sum on
  these pairs and exact elsewhere.
\<close>

definition doubleSums :: "((rat \<times> rat) \<times> rat) list" where
  "doubleSums =
     [((- 15, 3602879701896397 / 4503599627370496), - (3996944669291315 / 281474976710656)),
      ((200, - (3996944669291315 / 281474976710656)), 3268628167052493 / 17592186044416),
      ((- (3996944669291315 / 281474976710656), 3602879701896397 / 4503599627370496),
       - (1885882343961395 / 140737488355328)),
      ((3268628167052493 / 17592186044416, - (1885882343961395 / 140737488355328)),
       6065785748114637 / 35184372088832),
      ((7768709357214111 / 562949953421312, 3602879701896397 / 4503599627370496),
       8219069319951161 / 562949953421312),
      ((211985841835213 / 1099511627776, 8219069319951161 / 562949953421312),
       1824309692805941 / 8796093022208),
      ((14, 3602879701896397 / 4503599627370496), 4165829655317709 / 281474976710656),
      ((240, 4165829655317709 / 281474976710656), 4482489004117197 / 17592186044416)]"

definition doubleAddSample :: "rat \<Rightarrow> rat \<Rightarrow> rat" where
  "doubleAddSample a b = (case map_of doubleSums (a, b) of None \<Rightarrow> a + b | Some c \<Rightarrow> c)"

definition snakeStarted :: snake_game where
  "snakeStarted =
     \<lparr>timers = [\<lparr>handle = 1, kind = Interval, delay = 100\<rparr>], nextHandle = 2, rpos = 2,
      stored = None, gameRunning = True, score = 0, highScore = JNum 0, gameLoop = Some 1,
      gameSpeed = 100, snake = [\<lparr>x = 10, y = 10\<rparr>, \<lparr>x = 9, y = 10\<rparr>, \<lparr>x = 8, y = 10\<rparr>],
      food = Some \<lparr>x = 20, y = 20\<rparr>, direction = Right, newDirection = Right\<rparr>"

section \<open>Facts about the runtime model\<close>

lemma randomBelow_range:
  "0 \<le> r \<Longrightarrow> r < 1 \<Longrightarrow> 0 < n \<Longrightarrow>
   0 \<le> randomBelow r (of_nat n) \<and> randomBelow r (of_nat n) < int n"
  unfolding randomBelow_def by (simp add: floor_less_iff)

lemma randomBelow_eq:
  "0 < n \<Longrightarrow>
   (randomBelow r (of_nat n) = int k)
     = (of_nat k / of_nat n \<le> r \<and> r < (of_nat k + 1) / of_nat n)"
  unfolding randomBelow_def
  by (simp add: floor_eq_iff pos_divide_le_eq pos_less_divide_eq)

section \<open>The persisted high score\<close>

text \<open>
  Claim C4, as stated, says that a stored value that is not a decimal integer makes the
  game start with the high score 0. The scripts of Snake, Endless Runner and Whack-a-Mole
  do not parse the stored string: with \<open>abc\<close> stored, \<open>highScore\<close> starts as the string
  \<open>abc\<close>, which is not a number, so that no score compares greater than it.
\<close>

theorem load_malformed_counterexample:
  "highScore (whackInit (Some ''abc'')) = JStr ''abc''
   \<and> highScore (snakeInit (Some ''abc'')) = JStr ''abc''
   \<and> highScore (runnerInit (Some ''abc'')) = JStr ''abc''
   \<and> highScore (whackInit (Some ''abc'')) \<noteq> JNum 0
   \<and> toNumber (JStr ''abc'') = None
   \<and> \<not> jsGreater 5 (highScore (whackInit (Some ''abc'')))"
  by (simp add: whackInit_def snakeInit_def runnerInit_def jsGreater_def digitOf_def)

text \<open>
  Claim C4, amended: in each of the three games the high score starts as the number 0
  exactly when the stored value is absent or the empty string; any other stored string,
  numeric or not, is kept as it is.
\<close>

theorem load_default_zero:
  "highScore (whackInit v) = loadHighScore v
   \<and> highScore (snakeInit v) = loadHighScore v
   \<and> highScore (runnerInit v) = loadHighScore v
   \<and> (loadHighScore v = JNum 0) = (v = None \<or> v = Some [])
   \<and> loadHighScore (Some (c # cs)) = JStr (c # cs)"
  by (cases v) (simp_all add: whackInit_def snakeInit_def runnerInit_def)

section \<open>Whack-a-Mole: the random draws\<close>

text \<open>
  The double product of two doubles is the double nearest to the exact product, so it
  differs from it by at most the fraction \<open>2\<^sup>-\<^sup>5\<^sup>3\<close> of it (a product of a double with 9 or
  900 that is too small for this is a double itself). The facts below hold for every
  \<open>mul\<close> that is that close to the exact product on the product taken.
\<close>

lemma near_product:
  fixes F P u :: rat
  assumes "\<bar>F - P\<bar> \<le> P * u"
  shows "P * (1 - u) \<le> F" and "F \<le> P * (1 + u)"
  using assms by (simp_all add: abs_le_iff algebra_simps)

lemma floorProduct_range:
  fixes r n :: rat
  assumes e: "\<bar>mul r n - r * n\<bar> \<le> r * n / 2 ^ 53"
    and r: "0 \<le> r" "r \<le> 1 - 1 / 2 ^ 53" and n: "0 < n"
  shows "0 \<le> floorProduct mul r n \<and> of_int (floorProduct mul r n) < n"
proof -
  let ?u = "1 / 2 ^ 53 :: rat"
  have u: "0 < ?u" "?u < 1" by simp_all
  have e': "\<bar>mul r n - r * n\<bar> \<le> (r * n) * ?u" using e by simp
  have P: "0 \<le> r * n" using r n by simp
  have "0 \<le> 1 - ?u" by simp
  then have "0 \<le> (r * n) * (1 - ?u)" using P by (rule mult_nonneg_nonneg [rotated])
  then have lo: "0 \<le> mul r n" using near_product(1) [OF e'] by linarith
  have "r * n \<le> (1 - ?u) * n" using r(2) n by (simp add: mult_right_mono)
  then have "(r * n) * (1 + ?u) \<le> ((1 - ?u) * n) * (1 + ?u)"
    by (rule mult_right_mono) simp
  also have "\<dots> = n * (1 - ?u * ?u)" by (simp add: algebra_simps)
  also have "\<dots> < n * 1" using n by (simp add: mult_strict_left_mono)
  finally have hi: "mul r n < n" using near_product(2) [OF e'] by simp
  have "of_int \<lfloor>mul r n\<rfloor> \<le> mul r n" by simp
  then have "of_int \<lfloor>mul r n\<rfloor> < n" using hi by (rule le_less_trans)
  then show ?thesis
    using lo by (simp add: floorProduct_def)
qed

lemma floorProduct_bin:
  fixes r n :: rat
  assumes e: "\<bar>mul r n - r * n\<bar> \<le> r * n / 2 ^ 53" and n: "0 < n"
  shows "floorProduct mul r n = k \<longrightarrow>
           of_int k / (n * (1 + 1 / 2 ^ 53)) \<le> r \<and> r < (of_int k + 1) / (n * (1 - 1 / 2 ^ 53))"
    and "of_int k / (n * (1 - 1 / 2 ^ 53)) \<le> r \<and> r < (of_int k + 1) / (n * (1 + 1 / 2 ^ 53)) \<longrightarrow>
           floorProduct mul r n = k"
proof -
  let ?u = "1 / 2 ^ 53 :: rat"
  have e': "\<bar>mul r n - r * n\<bar> \<le> (r * n) * ?u" using e by simp
  note b = near_product [OF e']
  have p1: "0 < n * (1 + ?u)" and p2: "0 < n * (1 - ?u)"
    using n by simp_all
  show "floorProduct mul r n = k \<longrightarrow>
           of_int k / (n * (1 + ?u)) \<le> r \<and> r < (of_int k + 1) / (n * (1 - ?u))"
  proof
    assume "floorProduct mul r n = k"
    then have f: "of_int k \<le> mul r n" "mul r n < of_int k + 1"
      by (simp_all add: floorProduct_def floor_eq_iff)
    have "of_int k \<le> r * (n * (1 + ?u))" using f(1) b(2) by (simp add: mult.assoc)
    then have 1: "of_int k / (n * (1 + ?u)) \<le> r"
      using p1 by (simp only: pos_divide_le_eq)
    have "r * (n * (1 - ?u)) < of_int k + 1" using f(2) b(1) by (simp add: mult.assoc)
    then have 2: "r < (of_int k + 1) / (n * (1 - ?u))"
      using p2 by (simp only: pos_less_divide_eq)
    show "of_int k / (n * (1 + ?u)) \<le> r \<and> r < (of_int k + 1) / (n * (1 - ?u))"
      using 1 2 by blast
  qed
  show "of_int k / (n * (1 - ?u)) \<le> r \<and> r < (of_int k + 1) / (n * (1 + ?u)) \<longrightarrow>
           floorProduct mul r n = k"
  proof
    assume a: "of_int k / (n * (1 - ?u)) \<le> r \<and> r < (of_int k + 1) / (n * (1 + ?u))"
    have "of_int k \<le> r * (n * (1 - ?u))"
      using a p2 by (simp only: pos_divide_le_eq)
    then have 1: "of_int k \<le> mul r n" using b(1) by (simp add: mult.assoc)
    have "r * (n * (1 + ?u)) < of_int k + 1"
      using a p1 by (simp only: pos_less_divide_eq)
    then have 2: "mul r n < of_int k + 1" using b(2) by (simp add: mult.assoc)
    show "floorProduct mul r n = k"
      using 1 2 by (simp add: floorProduct_def floor_eq_iff)
  qed
qed

lemma active_shown:
  assumes "i < length ms"
  shows "map active ((map hideMole ms)[i := (map hideMole ms ! i)\<lparr>active := True\<rparr>])
           = (replicate (length ms) False)[i := True]"
    and "map whacked ((map hideMole ms)[i := (map hideMole ms ! i)\<lparr>active := True\<rparr>])
           = replicate (length ms) False"
  using assms by (auto simp: list_eq_iff_nth_eq nth_list_update hideMole_def)

lemma replicate_upd_inj:
  "i < n \<Longrightarrow> ((replicate n False)[i := True] = (replicate n False)[j := True]) = (i = j)"
  by (metis length_replicate nth_list_update_eq nth_list_update_neq nth_replicate)

text \<open>
  Claim C5: when the mole timer expires in a running game with its nine moles, for every
  double below 1 that \<open>Math.random()\<close> returns and the double products the runtime takes
  of it, the callback hides every mole, shows one and sets a timeout whose delay lies in
  \<open>[600, 1500)\<close>. The delay is \<open>600 + k\<close> for every random value from \<open>k/900\<close> up to
  \<open>(k+1)/900\<close>, and mole \<open>i\<close> of the nine is the one shown for every random value from
  \<open>i/9\<close> up to \<open>(i+1)/9\<close>, whichever mole was shown before; the ends of these intervals
  of equal length are met up to the rounding of the product, the fraction \<open>2\<^sup>-\<^sup>5\<^sup>3\<close> of
  them. So both draws are uniform, up to that rounding, when \<open>Math.random()\<close> is.
\<close>

theorem showRandomMole_draw:
  assumes nine: "length (moles st) = 9"
    and run: "gameRunning st"
    and r0: "0 \<le> rnd (rpos st)" "rnd (rpos st) \<le> 1 - 1 / 2 ^ 53"
    and r1: "0 \<le> rnd (rpos st + 1)" "rnd (rpos st + 1) \<le> 1 - 1 / 2 ^ 53"
    and m0: "\<bar>mul (rnd (rpos st)) 9 - rnd (rpos st) * 9\<bar> \<le> rnd (rpos st) * 9 / 2 ^ 53"
    and m1: "\<bar>mul (rnd (rpos st + 1)) 900 - rnd (rpos st + 1) * 900\<bar>
               \<le> rnd (rpos st + 1) * 900 / 2 ^ 53"
  shows "\<exists>st' i. moleTimerCallback mul rnd st = Inr st'
    \<and> timers st' = timers st @ [\<lparr>handle = nextHandle st, kind = Timeout,
                                   delay = of_int (randomTime mul (rnd (rpos st + 1)))\<rparr>]
    \<and> moleTimer st' = Some (nextHandle st)
    \<and> 600 \<le> randomTime mul (rnd (rpos st + 1)) \<and> randomTime mul (rnd (rpos st + 1)) < 1500
    \<and> (\<forall>k. randomTime mul (rnd (rpos st + 1)) = 600 + int k \<longrightarrow>
            of_nat k / (900 * (1 + 1 / 2 ^ 53)) \<le> rnd (rpos st + 1)
            \<and> rnd (rpos st + 1) < (of_nat k + 1) / (900 * (1 - 1 / 2 ^ 53)))
    \<and> (\<forall>k. of_nat k / (900 * (1 - 1 / 2 ^ 53)) \<le> rnd (rpos st + 1)
            \<and> rnd (rpos st + 1) < (of_nat k + 1) / (900 * (1 + 1 / 2 ^ 53)) \<longrightarrow>
            randomTime mul (rnd (rpos st + 1)) = 600 + int k)
    \<and> map whacked (moles st') = replicate 9 False
    \<and> i < 9 \<and> int i = floorProduct mul (rnd (rpos st)) 9
    \<and> map active (moles st') = (replicate 9 False)[i := True]
    \<and> (\<forall>j<9. map active (moles st') = (replicate 9 False)[j := True] \<longrightarrow>
            of_nat j / (9 * (1 + 1 / 2 ^ 53)) \<le> rnd (rpos st)
            \<and> rnd (rpos st) < (of_nat j + 1) / (9 * (1 - 1 / 2 ^ 53)))
    \<and> (\<forall>j<9. of_nat j / (9 * (1 - 1 / 2 ^ 53)) \<le> rnd (rpos st)
            \<and> rnd (rpos st) < (of_nat j + 1) / (9 * (1 + 1 / 2 ^ 53)) \<longrightarrow>
            map active (moles st') = (replicate 9 False)[j := True])"
proof -
  let ?k = "floorProduct mul (rnd (rpos st)) 9"
  let ?t = "randomTime mul (rnd (rpos st + 1))"
  let ?shown = "(map hideMole (moles st))[nat ?k := (map hideMole (moles st) ! nat ?k)\<lparr>active := True\<rparr>]"
  have rng: "0 \<le> ?k \<and> ?k < 9"
    using floorProduct_range [of mul "rnd (rpos st)" 9, OF m0 r0] by simp
  then have lt: "nat ?k < length (moles st)"
    using nine by auto
  define st' where "st' = (setTimer Timeout (of_int ?t)
      (st\<lparr>moles := ?shown, rpos := rpos st + 2\<rparr>))\<lparr>moleTimer := Some (nextHandle st)\<rparr>"
  have call: "moleTimerCallback mul rnd st = Inr st'"
    using rng run nine by (simp add: moleTimerCallback_def showRandomMole_def Let_def st'_def)
  have tm: "timers st' = timers st @ [\<lparr>handle = nextHandle st, kind = Timeout,
                                   delay = of_int ?t\<rparr>]"
    and mt: "moleTimer st' = Some (nextHandle st)"
    by (simp_all add: st'_def setTimer_def)
  have ms: "moles st' = ?shown"
    by (simp add: st'_def setTimer_def)
  have act: "map active (moles st') = (replicate 9 False)[nat ?k := True]"
    and wh: "map whacked (moles st') = replicate 9 False"
    using active_shown [OF lt] nine by (simp_all add: ms)
  have trange: "600 \<le> ?t \<and> ?t < 1500"
    using floorProduct_range [of mul "rnd (rpos st + 1)" 900, OF m1 r1] by (simp add: randomTime_def)
  have t1: "?t = 600 + int k \<longrightarrow>
            of_nat k / (900 * (1 + 1 / 2 ^ 53)) \<le> rnd (rpos st + 1)
            \<and> rnd (rpos st + 1) < (of_nat k + 1) / (900 * (1 - 1 / 2 ^ 53))" for k
    using floorProduct_bin(1) [of mul "rnd (rpos st + 1)" 900 "int k", OF m1] by (simp add: randomTime_def)
  have t2: "of_nat k / (900 * (1 - 1 / 2 ^ 53)) \<le> rnd (rpos st + 1)
            \<and> rnd (rpos st + 1) < (of_nat k + 1) / (900 * (1 + 1 / 2 ^ 53)) \<longrightarrow>
            ?t = 600 + int k" for k
    using floorProduct_bin(2) [of mul "rnd (rpos st + 1)" 900 "int k", OF m1] by (simp add: randomTime_def)
  have same: "(map active (moles st') = (replicate 9 False)[j := True]) = (?k = int j)"
    if "j < 9" for j
  proof -
    have "(map active (moles st') = (replicate 9 False)[j := True]) = (j = nat ?k)"
      using replicate_upd_inj [OF that, of "nat ?k"] act by auto
    also have "\<dots> = (?k = int j)"
      using rng by auto
    finally show ?thesis .
  qed
  have i1: "map active (moles st') = (replicate 9 False)[j := True] \<longrightarrow>
            of_nat j / (9 * (1 + 1 / 2 ^ 53)) \<le> rnd (rpos st)
            \<and> rnd (rpos st) < (of_nat j + 1) / (9 * (1 - 1 / 2 ^ 53))" if "j < 9" for j
    using floorProduct_bin(1) [of mul "rnd (rpos st)" 9 "int j", OF m0] same [OF that] by simp
  have i2: "of_nat j / (9 * (1 - 1 / 2 ^ 53)) \<le> rnd (rpos st)
            \<and> rnd (rpos st) < (of_nat j + 1) / (9 * (1 + 1 / 2 ^ 53)) \<longrightarrow>
            map active (moles st') = (replicate 9 False)[j := True]" if "j < 9" for j
    using floorProduct_bin(2) [of mul "rnd (rpos st)" 9 "int j", OF m0] same [OF that] by simp
  have idx: "nat ?k < 9" "int (nat ?k) = ?k"
    using rng by auto
  show ?thesis
    apply (rule exI [of _ st'], rule exI [of _ "nat ?k"])
    using call tm mt trange t1 t2 wh idx act i1 i2 by blast
qed

theorem showRandomMole_draw_witness:
  "moleTimerCallback doubleMulSample nearThirdRnd
       ((createMoleGrid (whackInit None))\<lparr>gameRunning := True\<rparr>)
     = Inr ((createMoleGrid (whackInit None))
           \<lparr>timers := [\<lparr>handle = 1, kind = Timeout, delay = 900\<rparr>], nextHandle := 2, rpos := 2,
            gameRunning := True, moleTimer := Some 1,
            moles := (replicate 9 \<lparr>active = False, whacked = False\<rparr>)
                       [3 := \<lparr>active = True, whacked = False\<rparr>]\<rparr>)
   \<and> randomTime doubleMulSample nearThird = 900
   \<and> nearThird < 3 / 9 \<and> 3 / (9 * (1 + 1 / 2 ^ 53)) \<le> nearThird"
proof -
  let ?st = "(createMoleGrid (whackInit None))\<lparr>gameRunning := True\<rparr>"
  have h: "length (moles ?st) = 9" "gameRunning ?st"
    "0 \<le> nearThirdRnd (rpos ?st)" "nearThirdRnd (rpos ?st) \<le> 1 - 1 / 2 ^ 53"
    "0 \<le> nearThirdRnd (rpos ?st + 1)" "nearThirdRnd (rpos ?st + 1) \<le> 1 - 1 / 2 ^ 53"
    "\<bar>doubleMulSample (nearThirdRnd (rpos ?st)) 9 - nearThirdRnd (rpos ?st) * 9\<bar>
       \<le> nearThirdRnd (rpos ?st) * 9 / 2 ^ 53"
    "\<bar>doubleMulSample (nearThirdRnd (rpos ?st + 1)) 900 - nearThirdRnd (rpos ?st + 1) * 900\<bar>
       \<le> nearThirdRnd (rpos ?st + 1) * 900 / 2 ^ 53"
    by (simp_all add: createMoleGrid_def whackInit_def nearThirdRnd_def nearThird_def
        doubleMulSample_def)
  from showRandomMole_draw [OF h]
  obtain st' where r: "moleTimerCallback doubleMulSample nearThirdRnd ?st = Inr st'"
    "\<forall>j<9. map active (moles st') = (replicate 9 False)[j := True] \<longrightarrow>
       of_nat j / (9 * (1 + 1 / 2 ^ 53)) \<le> nearThirdRnd (rpos ?st)
       \<and> nearThirdRnd (rpos ?st) < (of_nat j + 1) / (9 * (1 - 1 / 2 ^ 53))"
    by blast
  have r3: "map active (moles st') = (replicate 9 False)[3 := True] \<longrightarrow>
       3 / (9 * (1 + 1 / 2 ^ 53)) \<le> nearThird"
    using r(2) [rule_format, of 3] by (simp add: nearThirdRnd_def)
  have e: "moleTimerCallback doubleMulSample nearThirdRnd ?st
     = Inr ((createMoleGrid (whackInit None))
           \<lparr>timers := [\<lparr>handle = 1, kind = Timeout, delay = 900\<rparr>], nextHandle := 2, rpos := 2,
            gameRunning := True, moleTimer := Some 1,
            moles := (replicate 9 \<lparr>active = False, whacked = False\<rparr>)
                       [3 := \<lparr>active = True, whacked = False\<rparr>]\<rparr>)"
    "randomTime doubleMulSample nearThird = 900"
    by (simp_all add: moleTimerCallback_def showRandomMole_def createMoleGrid_def whackInit_def
        floorProduct_def randomTime_def setTimer_def hideMole_def Let_def nearThirdRnd_def
        doubleMulSample_def)
  have "map active (moles st') = (replicate 9 False)[3 := True]"
    using r(1) e(1) by (simp add: createMoleGrid_def whackInit_def map_update numeral_eq_Suc)
  then have "3 / (9 * (1 + 1 / 2 ^ 53)) \<le> nearThird"
    using r3 by blast
  moreover have "nearThird < 3 / 9"
    by (simp add: nearThird_def)
  ultimately show ?thesis
    using e by blast
qed

section \<open>Endless Runner: the jump\<close>

text \<open>
  Claim C7: \<open>updatePlayer\<close> leaves a player that is not jumping unchanged. For a jumping
  player it adds the gravity to the jump velocity and the new velocity to the vertical
  position, each sum as the runtime takes it; when that position is at or below the
  standing level (ground minus the player's height), and so in particular when it reaches
  or passes the ground (the standing level being at or above the ground, as it is for
  every height that is not negative), the position becomes ground minus height, the
  velocity 0 and the jumping flag false; otherwise the new velocity and position stay.
  This holds whatever the runtime's sum \<open>add\<close> and difference \<open>sub\<close> of two numbers are,
  so for the rounded sums of doubles as for exact ones.
\<close>

theorem updatePlayer_step:
  "(\<not> jumping p \<longrightarrow> updatePlayer add sub g p = p)
   \<and> (jumping p \<and> add (y p) (add (jumpVelocity p) (gravity p)) \<ge> sub g (height p) \<longrightarrow>
        updatePlayer add sub g p
          = p\<lparr>jumpVelocity := 0, y := sub g (height p), jumping := False\<rparr>)
   \<and> (jumping p \<and> add (y p) (add (jumpVelocity p) (gravity p)) < sub g (height p) \<longrightarrow>
        updatePlayer add sub g p
          = p\<lparr>jumpVelocity := add (jumpVelocity p) (gravity p),
              y := add (y p) (add (jumpVelocity p) (gravity p))\<rparr>)
   \<and> (jumping p \<and> sub g (height p) \<le> g
        \<and> add (y p) (add (jumpVelocity p) (gravity p)) \<ge> g \<longrightarrow>
        y (updatePlayer add sub g p) = sub g (height p)
        \<and> jumpVelocity (updatePlayer add sub g p) = 0
        \<and> \<not> jumping (updatePlayer add sub g p))"
  by (simp add: updatePlayer_def Let_def)

text \<open>
  With the double sums of \<open>doubleAddSample\<close> and the ground at 250: a standing player
  stays; the first tick of a jump from the standing level 200 gives the velocity
  \<open>-14.2\<close> and the height \<open>185.8\<close> as doubles, the second the velocity
  \<open>-13.399999999999999\<close> (exactly \<open>- 67 / 5\<close> would need exact sums); on tick 37 of the
  jump the height passes 200 and the player lands; and a player that passes the ground
  itself lands, too.
\<close>

theorem updatePlayer_step_witness:
  "updatePlayer doubleAddSample minus 250 (player (runnerInit None)) = player (runnerInit None)
   \<and> updatePlayer doubleAddSample minus 250 (jump ((player (runnerInit None))\<lparr>y := 200\<rparr>))
       = (player (runnerInit None))\<lparr>y := 3268628167052493 / 17592186044416, jumping := True,
            jumpVelocity := - (3996944669291315 / 281474976710656)\<rparr>
   \<and> updatePlayer doubleAddSample minus 250
        ((player (runnerInit None))\<lparr>y := 3268628167052493 / 17592186044416, jumping := True,
            jumpVelocity := - (3996944669291315 / 281474976710656)\<rparr>)
       = (player (runnerInit None))\<lparr>y := 6065785748114637 / 35184372088832, jumping := True,
            jumpVelocity := - (1885882343961395 / 140737488355328)\<rparr>
   \<and> - (1885882343961395 / 140737488355328) \<noteq> (- (67 / 5) :: rat)
   \<and> updatePlayer doubleAddSample minus 250
        ((player (runnerInit None))\<lparr>y := 211985841835213 / 1099511627776, jumping := True,
            jumpVelocity := 7768709357214111 / 562949953421312\<rparr>)
       = (player (runnerInit None))\<lparr>y := 200\<rparr>
   \<and> updatePlayer doubleAddSample minus 250
        ((player (runnerInit None))\<lparr>y := 240, jumping := True, jumpVelocity := 14\<rparr>)
       = (player (runnerInit None))\<lparr>y := 200\<rparr>"
  using updatePlayer_step [of "player (runnerInit None)" doubleAddSample minus 250]
    updatePlayer_step [of "jump ((player (runnerInit None))\<lparr>y := 200\<rparr>)" doubleAddSample minus 250]
    updatePlayer_step [of "(player (runnerInit None))\<lparr>y := 3268628167052493 / 17592186044416,
        jumping := True, jumpVelocity := - (3996944669291315 / 281474976710656)\<rparr>"
      doubleAddSample minus 250]
    updatePlayer_step [of "(player (runnerInit None))\<lparr>y := 211985841835213 / 1099511627776,
        jumping := True, jumpVelocity := 7768709357214111 / 562949953421312\<rparr>"
      doubleAddSample minus 250]
    updatePlayer_step [of "(player (runnerInit None))\<lparr>y := 240, jumping := True,
        jumpVelocity := 14\<rparr>" doubleAddSample minus 250]
  by (simp add: runnerInit_def jump_def doubleAddSample_def doubleSums_def)

section \<open>Snake: queued direction changes\<close>

lemma point_eta [simp]: "\<lparr>x = x p, y = y p\<rparr> = (p :: 'a point)"
  by (cases p) simp

lemma onSnake_Nil [simp]: "onSnake [] f = False"
  and onSnake_Cons [simp]: "onSnake (s # sn) f = ((x s = x f \<and> y s = y f) \<or> onSnake sn f)"
  by (simp_all add: onSnake_def)


lemma snakeStarted_reached:
  "snakeStartGame halfRnd 400 400 (snakeInit None) = Some snakeStarted"
  by (simp add: snakeStartGame_def createFood_def createFoodLoop.simps [of halfRnd 400 400 _ 0]
      foodAt_def snakeInit_def halfRnd_def randomBelow_def Let_def setTimer_def snakeStarted_def)

lemma changeDirection_alt:
  "changeDirection k st =
     (case keyDir k of None \<Rightarrow> st
      | Some d \<Rightarrow> if d \<noteq> opposite (direction st) then st\<lparr>newDirection := d\<rparr> else st)"
  by (cases "direction st") (auto simp: changeDirection_def keyDir_def)

lemma queued_Cons:
  "queued d (k # ks) =
     (case keyDir k of None \<Rightarrow> queued d ks
      | Some e \<Rightarrow> if e \<noteq> opposite d then e # queued d ks else queued d ks)"
  by (simp add: queued_def List.map_filter_simps split: option.splits)

lemma fold_changeDirection:
  "fold changeDirection ks st = st\<lparr>newDirection := last (newDirection st # queued (direction st) ks)\<rparr>"
proof (induction ks arbitrary: st)
  case Nil
  then show ?case by (simp add: queued_def List.map_filter_simps)
next
  case (Cons k ks)
  let ?st1 = "changeDirection k st"
  have "fold changeDirection (k # ks) st = fold changeDirection ks ?st1"
    by simp
  also have "\<dots> = ?st1\<lparr>newDirection := last (newDirection ?st1 # queued (direction ?st1) ks)\<rparr>"
    by (rule Cons.IH)
  also have "\<dots> = st\<lparr>newDirection := last (newDirection st # queued (direction st) (k # ks))\<rparr>"
    by (simp add: changeDirection_alt queued_Cons split: option.splits)
  finally show ?case .
qed

lemma snakeGameUpdate_direction:
  "snakeGameUpdate rnd cw ch st = Some (Inr st') \<Longrightarrow> direction st' = newDirection st"
  by (auto simp: snakeGameUpdate_def Let_def snakeGameOver_def clearTimer_def createFood_def
      split: list.splits if_splits prod.splits option.splits)

lemma food_hit:
  "(Some (x h) = map_option x fo \<and> Some (y h) = map_option y fo) = (fo = Some (h :: int point))"
  by (cases fo) auto

lemma snakeGameUpdate_move:
  assumes "snake st = s0 # rest"
    and "\<not> checkCollision cw ch (snake st) (moveHead (newDirection st) s0)"
    and "food st \<noteq> Some (moveHead (newDirection st) s0)"
  shows "snakeGameUpdate rnd cw ch st
     = Some (Inr (st\<lparr>direction := newDirection st,
                     snake := moveHead (newDirection st) s0 # butlast (snake st)\<rparr>))"
  using assms by (simp add: snakeGameUpdate_def Let_def food_hit)

text \<open>
  Claim C2, as stated, lets the first queued change that is not the inverse of the current
  direction take effect. With the head moving right, after \<open>ArrowUp\<close> and then
  \<open>ArrowDown\<close> before the next tick, the first such change is up, and the tick moves the
  head down.
\<close>

theorem first_queued_direction_counterexample:
  "hd (queued (direction snakeStarted) [''ArrowUp'', ''ArrowDown'']) = Up
   \<and> snakeGameUpdate halfRnd 400 400
        (changeDirection ''ArrowDown'' (changeDirection ''ArrowUp'' snakeStarted))
       = Some (Inr (snakeStarted\<lparr>direction := Down, newDirection := Down,
            snake := [\<lparr>x = 10, y = 11\<rparr>, \<lparr>x = 10, y = 10\<rparr>, \<lparr>x = 9, y = 10\<rparr>]\<rparr>))"
  by (simp add: snakeStarted_def changeDirection_def snakeGameUpdate_def moveHead_def
      checkCollision_def Let_def queued_def keyDir_def List.map_filter_simps)

text \<open>
  Claim C2, amended: of the direction inputs queued before a tick, the last one that is
  not the inverse of the current direction takes effect at that tick (each accepted key
  overwrites \<open>newDirection\<close>, and nothing else of the state changes); a key that asks for
  the inverse of the current direction changes nothing, so that with nothing else queued
  the head goes on in its direction.
\<close>

theorem last_queued_direction_wins:
  fixes st :: snake_game and ks :: "string list"
  defines "d \<equiv> last (newDirection st # queued (direction st) ks)"
  shows "fold changeDirection ks st = st\<lparr>newDirection := d\<rparr>
    \<and> (keyDir k = Some (opposite (direction st)) \<longrightarrow> changeDirection k st = st)
    \<and> (\<forall>st'. snakeGameUpdate rnd cw ch (fold changeDirection ks st) = Some (Inr st')
          \<longrightarrow> direction st' = d)
    \<and> (\<forall>s0 rest. snake st = s0 # rest \<and> \<not> checkCollision cw ch (snake st) (moveHead d s0)
          \<and> food st \<noteq> Some (moveHead d s0)
          \<longrightarrow> snakeGameUpdate rnd cw ch (fold changeDirection ks st)
              = Some (Inr (st\<lparr>direction := d, newDirection := d,
                              snake := moveHead d s0 # butlast (snake st)\<rparr>)))"
proof -
  have f: "fold changeDirection ks st = st\<lparr>newDirection := d\<rparr>"
    by (simp add: fold_changeDirection d_def)
  have r: "keyDir k = Some (opposite (direction st)) \<longrightarrow> changeDirection k st = st"
    by (simp add: changeDirection_alt)
  have t: "direction st' = d" if "snakeGameUpdate rnd cw ch (fold changeDirection ks st) = Some (Inr st')" for st'
    using snakeGameUpdate_direction [OF that] by (simp add: f)
  have m: "snakeGameUpdate rnd cw ch (fold changeDirection ks st)
              = Some (Inr (st\<lparr>direction := d, newDirection := d,
                              snake := moveHead d s0 # butlast (snake st)\<rparr>))"
    if "snake st = s0 # rest" "\<not> checkCollision cw ch (snake st) (moveHead d s0)"
      "food st \<noteq> Some (moveHead d s0)" for s0 rest
    using snakeGameUpdate_move [of "st\<lparr>newDirection := d\<rparr>" s0 rest cw ch rnd] that
    by (simp add: f)
  show ?thesis using f r t m by blast
qed

theorem last_queued_direction_wins_witness:
  "fold changeDirection [''ArrowUp'', ''ArrowDown''] snakeStarted = snakeStarted\<lparr>newDirection := Down\<rparr>
   \<and> changeDirection ''ArrowLeft'' snakeStarted = snakeStarted
   \<and> snakeGameUpdate halfRnd 400 400 (fold changeDirection [''ArrowUp'', ''ArrowDown''] snakeStarted)
       = Some (Inr (snakeStarted\<lparr>direction := Down, newDirection := Down,
            snake := [\<lparr>x = 10, y = 11\<rparr>, \<lparr>x = 10, y = 10\<rparr>, \<lparr>x = 9, y = 10\<rparr>]\<rparr>))
   \<and> snakeGameUpdate halfRnd 400 400 (changeDirection ''ArrowLeft'' snakeStarted)
       = Some (Inr (snakeStarted\<lparr>snake := [\<lparr>x = 11, y = 10\<rparr>, \<lparr>x = 10, y = 10\<rparr>, \<lparr>x = 9, y = 10\<rparr>]\<rparr>))"
proof -
  have q: "last (newDirection snakeStarted # queued (direction snakeStarted) [''ArrowUp'', ''ArrowDown'']) = Down"
    "last (newDirection snakeStarted # queued (direction snakeStarted) []) = Right"
    by (simp_all add: snakeStarted_def queued_def keyDir_def List.map_filter_simps)
  have k: "keyDir ''ArrowLeft'' = Some (opposite (direction snakeStarted))"
    by (simp add: keyDir_def snakeStarted_def)
  have s: "snake snakeStarted = \<lparr>x = 10, y = 10\<rparr> # [\<lparr>x = 9, y = 10\<rparr>, \<lparr>x = 8, y = 10\<rparr>]"
    by (simp add: snakeStarted_def)
  have c: "\<not> checkCollision 400 400 (snake snakeStarted) (moveHead Down \<lparr>x = 10, y = 10\<rparr>)"
    "food snakeStarted \<noteq> Some (moveHead Down \<lparr>x = 10, y = 10\<rparr>)"
    "\<not> checkCollision 400 400 (snake snakeStarted) (moveHead Right \<lparr>x = 10, y = 10\<rparr>)"
    "food snakeStarted \<noteq> Some (moveHead Right \<lparr>x = 10, y = 10\<rparr>)"
    by (simp_all add: snakeStarted_def checkCollision_def moveHead_def)
  note a = last_queued_direction_wins [of "[''ArrowUp'', ''ArrowDown'']" snakeStarted "''ArrowLeft''" halfRnd 400 400, unfolded q]
  note b = last_queued_direction_wins [of "[]" snakeStarted "''ArrowLeft''" halfRnd 400 400, unfolded q]
  have 1: "fold changeDirection [''ArrowUp'', ''ArrowDown''] snakeStarted = snakeStarted\<lparr>newDirection := Down\<rparr>"
    using a by blast
  have 2: "changeDirection ''ArrowLeft'' snakeStarted = snakeStarted"
    using a k by blast
  have 3: "snakeGameUpdate halfRnd 400 400 (fold changeDirection [''ArrowUp'', ''ArrowDown''] snakeStarted)
       = Some (Inr (snakeStarted\<lparr>direction := Down, newDirection := Down,
            snake := moveHead Down \<lparr>x = 10, y = 10\<rparr> # butlast (snake snakeStarted)\<rparr>))"
    using a s c by blast
  have 4: "snakeGameUpdate halfRnd 400 400 (fold changeDirection [] snakeStarted)
       = Some (Inr (snakeStarted\<lparr>direction := Right, newDirection := Right,
            snake := moveHead Right \<lparr>x = 10, y = 10\<rparr> # butlast (snake snakeStarted)\<rparr>))"
    using b s c by blast
  show ?thesis
    using 1 2 3 4 by (simp add: snakeStarted_def moveHead_def)
qed

section \<open>Snake: eating the food\<close>




text \<open>
  Every free cell of the grid is drawn by some pair of values in \<open>[0, 1)\<close>, so a round
  that draws a free cell exists exactly when a free cell does.
\<close>

lemma free_cell_can_be_drawn:
  assumes "0 < cw" "0 < ch"
    and "0 \<le> x f" "of_int (x f) < (of_nat cw / 10 :: rat)"
    and "0 \<le> y f" "of_int (y f) < (of_nat ch / 10 :: rat)"
    and "rnd pos = of_int (x f) / (of_nat cw / 10)"
    and "rnd (pos + 1) = of_int (y f) / (of_nat ch / 10)"
  shows "foodAt rnd cw ch pos = f \<and> 0 \<le> rnd pos \<and> rnd pos < 1
         \<and> 0 \<le> rnd (pos + 1) \<and> rnd (pos + 1) < 1"
proof -
  have "foodAt rnd cw ch pos = \<lparr>x = x f, y = y f\<rparr>"
    using assms by (simp add: foodAt_def randomBelow_def)
  then show ?thesis
    using assms by (simp add: pos_divide_less_eq)
qed



section \<open>The high score over a session\<close>

lemma digitOf_digitChar: "d < 10 \<Longrightarrow> digitOf (digitChar d) = Some d"
  by (simp add: digitOf_def digitChar_def)

lemma decimalFrom_snoc:
  "decimalFrom acc (cs @ [c]) =
     (case decimalFrom acc cs of None \<Rightarrow> None
      | Some v \<Rightarrow> (case digitOf c of None \<Rightarrow> None | Some d \<Rightarrow> Some (10 * v + d)))"
  by (induction cs arbitrary: acc) (simp_all split: option.splits)

lemma decimalFrom_numToString: "decimalFrom 0 (numToString n) = Some n"
proof (induction n rule: numToString.induct)
  case (1 n)
  show ?case
  proof (cases "n < 10")
    case True
    then show ?thesis
      by (subst numToString.simps) (simp add: digitOf_digitChar)
  next
    case False
    then have "decimalFrom 0 (numToString (n div 10)) = Some (n div 10)"
      using "1.IH" by simp
    then show ?thesis
      using False
      by (subst numToString.simps) (simp add: decimalFrom_snoc digitOf_digitChar)
  qed
qed

lemma numToString_nonempty: "numToString n \<noteq> []"
  by (subst numToString.simps) simp

lemma persisted_numToString:
  "toNumber (loadHighScore (Some (numToString n))) = Some n"
  by (simp add: numToString_nonempty decimalFrom_numToString)

lemma updateHighScore_cases:
  assumes "toNumber hs = Some h"
  shows "updateHighScore sc hs sto =
           (if h < sc then (JNum sc, Some (numToString sc)) else (hs, sto))"
  using assms by (simp add: updateHighScore_def jsGreater_def)

lemma updateHighScore_max:
  assumes "toNumber hs = Some (max h0 sc)" "toNumber (loadHighScore sto) = Some (max h0 sc)"
    and "updateHighScore (Suc sc) hs sto = (hs', sto')"
  shows "toNumber hs' = Some (max h0 (Suc sc)) \<and> toNumber (loadHighScore sto') = Some (max h0 (Suc sc))"
proof (cases "max h0 sc < Suc sc")
  case True
  then have m: "max h0 (Suc sc) = Suc sc" by simp
  have "hs' = JNum (Suc sc)" "sto' = Some (numToString (Suc sc))"
    using assms(3) True by (simp_all add: updateHighScore_cases [OF assms(1)])
  then show ?thesis
    unfolding m using persisted_numToString [of "Suc sc"] by simp
next
  case False
  then have "max h0 (Suc sc) = max h0 sc" by simp
  then show ?thesis
    using assms False by (simp add: updateHighScore_cases [OF assms(1)])
qed

lemma sessionHigh_same:
  "score st' = score st \<Longrightarrow> highScore st' = highScore st \<Longrightarrow> stored st' = stored st \<Longrightarrow>
   sessionHigh h0 st \<Longrightarrow> sessionHigh h0 st'"
  by (simp add: sessionHigh_def highScoreIs_def persisted_def)

lemma sessionHigh_bump:
  assumes "sessionHigh h0 st" "updateHighScore (Suc (score st)) (highScore st) (stored st) = (hs, sto)"
    and "score st' = Suc (score st)" "highScore st' = hs" "stored st' = sto"
  shows "sessionHigh h0 st'"
  using updateHighScore_max [of "highScore st" h0 "score st" "stored st" hs sto] assms
  by (simp add: sessionHigh_def highScoreIs_def persisted_def)

lemma clearTimer_alt:
  "clearTimer h b =
     b\<lparr>timers := (case h of None \<Rightarrow> timers b | Some i \<Rightarrow> filter (\<lambda>t. handle t \<noteq> i) (timers b))\<rparr>"
  by (cases h) (simp_all add: clearTimer_def)

lemma whack_session_step:
  assumes "whackInSession e" "whackStep mul rnd e st = Inr st'" "sessionHigh h0 st"
  shows "sessionHigh h0 st'"
proof (cases e)
  case (WClick i)
  show ?thesis
  proof (cases "moleClick i st = st")
    case True
    then show ?thesis using assms WClick by (simp add: whackStep_def)
  next
    case False
    then have st': "st' = whackMole i st"
      using assms WClick by (simp add: whackStep_def moleClick_def split: if_splits)
    obtain hs sto where u: "updateHighScore (Suc (score st)) (highScore st) (stored st) = (hs, sto)"
      by (cases "updateHighScore (Suc (score st)) (highScore st) (stored st)")
    show ?thesis
      by (rule sessionHigh_bump [OF assms(3) u]) (simp_all add: st' whackMole_def Let_def u)
  qed
next
  case WCountdown
  then have "st' = gameTimerCallback st" using assms by (simp add: whackStep_def)
  then show ?thesis
    by (intro sessionHigh_same [OF _ _ _ assms(3)])
       (simp_all add: gameTimerCallback_def whackEndGame_def Let_def clearTimer_alt)
next
  case (WMoleExpiry h)
  then have r: "fireMoleTimer mul rnd h st = Inr st'" using assms by (simp add: whackStep_def)
  show ?thesis
    apply (rule sessionHigh_same [OF _ _ _ assms(3)])
    using r by (auto simp: fireMoleTimer_def moleTimerCallback_def showRandomMole_def Let_def
        clearTimer_alt setTimer_def split: if_splits)
qed (use assms in simp_all)

lemma whack_session_run:
  assumes "list_all whackInSession es" "whackRun mul rnd es st = Inr st'" "sessionHigh h0 st"
  shows "sessionHigh h0 st'"
  using assms
proof (induction es arbitrary: st)
  case Nil
  then show ?case by simp
next
  case (Cons e es)
  then obtain st1 where s: "whackStep mul rnd e st = Inr st1" "whackRun mul rnd es st1 = Inr st'"
    by (auto split: sum.splits)
  show ?case
    using Cons.IH [OF _ s(2) whack_session_step [OF _ s(1) Cons.prems(3)]] Cons.prems(1)
    by simp
qed

lemma whack_start_session:
  assumes "\<not> gameRunning st" "whackStartGame mul rnd st = Inr st'" "highScoreIs h0 st"
  shows "sessionHigh h0 st'"
  using assms
  by (auto simp: whackStartGame_def showRandomMole_def whackResetGame_def Let_def sessionHigh_def
      highScoreIs_def persisted_def clearTimer_alt setTimer_def split: if_splits)

lemma snake_session_step:
  assumes "snakeInSession e" "snakeStep rnd cw ch e st = Some (Inr st')" "sessionHigh h0 st"
  shows "sessionHigh h0 st'"
proof (cases e)
  case (SKey k)
  then have "st' = changeDirection k st" using assms by (simp add: snakeStep_def)
  then show ?thesis
    by (intro sessionHigh_same [OF _ _ _ assms(3)]) (simp_all add: changeDirection_def)
next
  case STick
  then have t: "snakeGameUpdate rnd cw ch st = Some (Inr st')"
    using assms by (simp add: snakeStep_def)
  obtain hs sto where u: "updateHighScore (Suc (score st)) (highScore st) (stored st) = (hs, sto)"
    by (cases "updateHighScore (Suc (score st)) (highScore st) (stored st)")
  from t consider
    (same) "score st' = score st" "highScore st' = highScore st" "stored st' = stored st"
    | (bump) "score st' = Suc (score st)" "highScore st' = hs" "stored st' = sto"
    by (auto simp: snakeGameUpdate_def Let_def snakeGameOver_def clearTimer_alt createFood_def u
        split: list.splits if_splits option.splits prod.splits)
  then show ?thesis
  proof cases
    case same
    then show ?thesis by (rule sessionHigh_same [OF _ _ _ assms(3)])
  next
    case bump
    then show ?thesis by (rule sessionHigh_bump [OF assms(3) u])
  qed
qed (use assms in simp_all)

lemma snake_session_run:
  assumes "list_all snakeInSession es" "snakeRun rnd cw ch es st = Some (Inr st')" "sessionHigh h0 st"
  shows "sessionHigh h0 st'"
  using assms
proof (induction es arbitrary: st)
  case Nil
  then show ?case by simp
next
  case (Cons e es)
  then obtain st1 where s: "snakeStep rnd cw ch e st = Some (Inr st1)"
      "snakeRun rnd cw ch es st1 = Some (Inr st')"
    by (auto split: option.splits sum.splits)
  show ?case
    using Cons.IH [OF _ s(2) snake_session_step [OF _ s(1) Cons.prems(3)]] Cons.prems(1)
    by simp
qed

lemma snake_start_session:
  assumes "\<not> gameRunning st" "snakeStartGame rnd cw ch st = Some st'" "highScoreIs h0 st"
  shows "sessionHigh h0 st'"
  using assms
  by (auto simp: snakeStartGame_def createFood_def Let_def sessionHigh_def
      highScoreIs_def persisted_def setTimer_def split: if_splits option.splits prod.splits)

lemma updateClouds_fields:
  "updateClouds rnd cw st = Some st' \<Longrightarrow>
   score st' = score st \<and> highScore st' = highScore st \<and> stored st' = stored st
   \<and> frameCount st' = frameCount st \<and> spawnRate st' = spawnRate st
   \<and> gameSpeed st' = gameSpeed st \<and> gameRunning st' = gameRunning st"
  by (auto simp: updateClouds_def split: option.splits prod.splits)

lemma runner_tail_fields:
  "score (checkCollisions (runnerSpawnStep rnd cw (runnerSpeedStep st))) = score st
   \<and> highScore (checkCollisions (runnerSpawnStep rnd cw (runnerSpeedStep st))) = highScore st
   \<and> stored (checkCollisions (runnerSpawnStep rnd cw (runnerSpeedStep st))) = stored st"
  by (simp add: checkCollisions_def runnerSpawnStep_def runnerSpeedStep_def Let_def
      runnerGameOver_def clearTimer_alt createObstacle_def)

lemma runner_session_step:
  assumes "runnerInSession e" "runnerStep add sub rnd cw e st = Some st'" "sessionHigh h0 st"
  shows "sessionHigh h0 st'"
proof (cases e)
  case (RKey k)
  then have "st' = runnerKeydown k st" using assms by (simp add: runnerStep_def)
  then show ?thesis
    by (intro sessionHigh_same [OF _ _ _ assms(3)]) (simp_all add: runnerKeydown_def)
next
  case RFrame
  then have t: "runnerGameUpdate add sub rnd cw st = Some st'"
    using assms by (simp add: runnerStep_def)
  then obtain st1 where c: "updateClouds rnd cw st = Some st1"
    by (auto simp: runnerGameUpdate_def split: option.splits)
  let ?st4 = "st1\<lparr>player := updatePlayer add sub (ground st1) (player st1),
                 obstacles := updateObstacles (gameSpeed st1) (obstacles st1),
                 frameCount := frameCount st1 + 1\<rparr>"
  have st': "st' = checkCollisions (runnerSpawnStep rnd cw (runnerSpeedStep (runnerScoreStep ?st4)))"
    using t c by (simp add: runnerGameUpdate_def Let_def)
  note f = updateClouds_fields [OF c]
  have h4: "sessionHigh h0 ?st4"
    by (rule sessionHigh_same [OF _ _ _ assms(3)]) (simp_all add: f)
  obtain hs sto where u: "updateHighScore (Suc (score ?st4)) (highScore ?st4) (stored ?st4) = (hs, sto)"
    by (cases "updateHighScore (Suc (score ?st4)) (highScore ?st4) (stored ?st4)")
  have h5: "sessionHigh h0 (runnerScoreStep ?st4)"
  proof (cases "frameCount ?st4 mod 10 = 0")
    case True
    show ?thesis
      apply (rule sessionHigh_bump [OF h4 u])
      using True u by (simp_all add: runnerScoreStep_def Let_def)
  next
    case False
    then show ?thesis using h4 by (simp add: runnerScoreStep_def)
  qed
  show ?thesis
    unfolding st'
    by (rule sessionHigh_same [OF _ _ _ h5]) (simp_all add: runner_tail_fields)
qed (use assms in simp_all)

lemma runner_session_run:
  assumes "list_all runnerInSession es" "runnerRun add sub rnd cw es st = Some st'" "sessionHigh h0 st"
  shows "sessionHigh h0 st'"
  using assms
proof (induction es arbitrary: st)
  case Nil
  then show ?case by simp
next
  case (Cons e es)
  then obtain st1 where s: "runnerStep add sub rnd cw e st = Some st1" "runnerRun add sub rnd cw es st1 = Some st'"
    by (auto split: option.splits)
  show ?case
    using Cons.IH [OF _ s(2) runner_session_step [OF _ s(1) Cons.prems(3)]] Cons.prems(1)
    by simp
qed

lemma runner_start_session:
  assumes "\<not> gameRunning st" "highScoreIs h0 st"
  shows "sessionHigh h0 (runnerStartGame st)"
  using assms
  by (simp add: runnerStartGame_def Let_def sessionHigh_def highScoreIs_def persisted_def setTimer_def)


lemma updateCloudsLoop_stay:
  "\<forall>c\<in>set todo. \<not> x c - speed c + width c < 0 \<Longrightarrow>
   updateCloudsLoop rnd cw seen todo pos = Some (seen @ map (\<lambda>c. c\<lparr>x := x c - speed c\<rparr>) todo, pos)"
proof (induction todo arbitrary: seen)
  case Nil
  then show ?case by (subst updateCloudsLoop.simps) simp
next
  case (Cons c todo)
  then show ?case by (subst updateCloudsLoop.simps) (simp add: Let_def)
qed

lemma numToString_digits:
  "numToString 1 = ''1''" "numToString 2 = ''2''" "numToString 3 = ''3''"
  "numToString 4 = ''4''" "numToString 5 = ''5''"
  "numToString (Suc 0) = ''1''" "numToString (Suc (Suc 0)) = ''2''"
  "numToString (Suc (Suc (Suc 0))) = ''3''" "numToString (Suc (Suc (Suc (Suc 0)))) = ''4''"
  "numToString (Suc (Suc (Suc (Suc (Suc 0))))) = ''5''"
  by code_simp+

lemma funpow_5: "(f ^^ 5) s = f (f (f (f (f s))))"
  by (simp add: eval_nat_numeral)

lemmas whack_eval = whackStartGame_def whackResetGame_def createMoleGrid_def whackInit_def
  showRandomMole_def whackStep_def moleClick_def whackMole_def fireMoleTimer_def
  moleTimerCallback_def gameTimerCallback_def whackEndGame_def updateHighScore_def jsGreater_def
  digitOf_def thirdRnd_def floorProduct_def randomTime_def setTimer_def clearTimer_def
  hideMole_def Let_def numToString_digits

lemmas runner_eval = runnerStartGame_def runnerResetGame_def runnerLoaded_def runnerInit_def
  createCloud_def newCloud_def funpow_5 runnerStep_def runnerGameUpdate_def updateClouds_def
  updateCloudsLoop_stay updatePlayer_def runnerScoreStep_def runnerSpeedStep_def
  runnerSpawnStep_def createObstacle_def checkCollisions_def collides_def runnerGameOver_def
  runnerKeydown_def jump_def updateHighScore_def jsGreater_def halfRnd_def randomBelow_def
  setTimer_def clearTimer_def Let_def numToString_digits doubleAddSample_def doubleSums_def

text \<open>
  Claim C3: in Whack-a-Mole, Snake and Endless Runner, when a session starts with the
  high score variable and the stored value both equal to \<open>h0\<close>, then after any events of
  the session (inputs and timer callbacks, up to and after its end) both equal the
  maximum of \<open>h0\<close> and the score. The update that follows an increment of the score
  writes the score to the store exactly when it is greater than the high score, and
  otherwise leaves the variable and the store as they are; what it writes reads back as
  the score. In particular a session that starts with 3 stored and reaches the score 5
  leaves 5 stored.
\<close>

theorem high_score_is_max:
  "(\<not> gameRunning w \<and> highScoreIs h0 w \<and> whackStartGame mul rnd w = Inr w1
      \<and> list_all whackInSession wes \<and> whackRun mul rnd wes w1 = Inr w2
      \<longrightarrow> highScoreIs (max h0 (score w2)) w2)
   \<and> (\<not> gameRunning s \<and> highScoreIs h0 s \<and> snakeStartGame rnd cw ch s = Some s1
      \<and> list_all snakeInSession ses \<and> snakeRun rnd cw ch ses s1 = Some (Inr s2)
      \<longrightarrow> highScoreIs (max h0 (score s2)) s2)
   \<and> (\<not> gameRunning r \<and> highScoreIs h0 r
      \<and> list_all runnerInSession res \<and> runnerRun add sub rnd cw res (runnerStartGame r) = Some r2
      \<longrightarrow> highScoreIs (max h0 (score r2)) r2)
   \<and> (toNumber hs = Some h \<longrightarrow>
        updateHighScore sc hs sto
          = (if h < sc then (JNum sc, Some (numToString sc)) else (hs, sto)))
   \<and> toNumber (loadHighScore (Some (numToString n))) = Some n"
  using whack_session_run [of wes mul rnd w1 w2 h0] whack_start_session [of w mul rnd w1 h0]
    snake_session_run [of ses rnd cw ch s1 s2 h0] snake_start_session [of s rnd cw ch s1 h0]
    runner_session_run [of res add sub rnd cw "runnerStartGame r" r2 h0] runner_start_session [of r h0]
    updateHighScore_cases [of hs h sc sto] persisted_numToString [of n]
  unfolding sessionHigh_def by blast

theorem high_score_is_max_witness:
  "(\<exists>w1 w2. whackStartGame times thirdRnd (createMoleGrid (whackInit (Some ''3''))) = Inr w1
      \<and> whackRun times thirdRnd [WClick 3, WMoleExpiry 2, WClick 3, WMoleExpiry 3, WClick 3,
           WMoleExpiry 4, WClick 3, WMoleExpiry 5, WClick 3, WCountdown] w1 = Inr w2
      \<and> score w2 = 5 \<and> stored w2 = Some ''5'' \<and> highScoreIs 5 w2)
   \<and> (\<exists>s2. snakeRun halfRnd 400 400 [SKey ''ArrowDown'', STick] snakeStarted = Some (Inr s2)
      \<and> score s2 = 0 \<and> highScoreIs 0 s2)
   \<and> (\<exists>r2. runnerRun doubleAddSample minus halfRnd 800
             [RKey ''Space'', RFrame]
             (runnerStartGame (runnerLoaded halfRnd 800 300 (runnerInit None))) = Some r2
      \<and> score r2 = 0 \<and> stored r2 = None \<and> highScoreIs 0 r2)
   \<and> updateHighScore 5 (JStr ''3'') (Some ''3'') = (JNum 5, Some ''5'')
   \<and> updateHighScore 5 (JNum 7) (Some ''7'') = (JNum 7, Some ''7'')"
proof -
  let ?w = "createMoleGrid (whackInit (Some ''3''))"
  let ?wes = "[WClick 3, WMoleExpiry 2, WClick 3, WMoleExpiry 3, WClick 3,
           WMoleExpiry 4, WClick 3, WMoleExpiry 5, WClick 3, WCountdown]"
  let ?w1 = "projr (whackStartGame times thirdRnd ?w)"
  let ?w2 = "projr (whackRun times thirdRnd ?wes ?w1)"
  have w0: "\<not> gameRunning ?w" "highScoreIs 3 ?w"
    by (simp_all add: createMoleGrid_def whackInit_def highScoreIs_def persisted_def digitOf_def)
  have w1: "whackStartGame times thirdRnd ?w = Inr ?w1"
    by (simp add: whack_eval)
  have w2: "whackRun times thirdRnd ?wes ?w1 = Inr ?w2"
    by (simp add: whack_eval)
  have w3: "score ?w2 = 5" "stored ?w2 = Some ''5''"
    by (simp_all add: whack_eval)
  have w4: "highScoreIs (max 3 (score ?w2)) ?w2"
    using high_score_is_max [of ?w 3 times thirdRnd ?w1 ?wes ?w2] w0 w1 w2 by simp
  let ?ses = "[SKey ''ArrowDown'', STick]"
  let ?s2 = "projr (the (snakeRun halfRnd 400 400 ?ses snakeStarted))"
  have s0: "\<not> gameRunning (snakeInit None)" "highScoreIs 0 (snakeInit None)"
    by (simp_all add: snakeInit_def highScoreIs_def persisted_def)
  have s2: "snakeRun halfRnd 400 400 ?ses snakeStarted = Some (Inr ?s2)" "score ?s2 = 0"
    by (simp_all add: snakeStep_def changeDirection_def snakeGameUpdate_def checkCollision_def
        moveHead_def snakeStarted_def Let_def)
  have s4: "highScoreIs (max 0 (score ?s2)) ?s2"
    using high_score_is_max [where s = "snakeInit None" and ?h0.0 = 0 and rnd = halfRnd
        and cw = 400 and ch = 400 and ?s1.0 = snakeStarted and ses = ?ses and ?s2.0 = ?s2]
      s0 s2 snakeStarted_reached by simp
  let ?r = "runnerLoaded halfRnd 800 300 (runnerInit None)"
  let ?res = "[RKey ''Space'', RFrame]"
  let ?r2 = "the (runnerRun doubleAddSample minus halfRnd 800 ?res (runnerStartGame ?r))"
  have r0: "\<not> gameRunning ?r" "highScoreIs 0 ?r"
    by (simp_all add: runner_eval highScoreIs_def persisted_def)
  have r2: "runnerRun doubleAddSample minus halfRnd 800 ?res (runnerStartGame ?r) = Some ?r2"
    by (simp add: runner_eval)
  have r3: "score ?r2 = 0" "stored ?r2 = None"
    by (simp_all add: runner_eval)
  have r4: "highScoreIs (max 0 (score ?r2)) ?r2"
    using high_score_is_max [where r = ?r and ?h0.0 = 0 and rnd = halfRnd and cw = 800
        and res = ?res and ?r2.0 = ?r2] r0 r2 by simp
  have u: "updateHighScore 5 (JStr ''3'') (Some ''3'') = (JNum 5, Some ''5'')"
    "updateHighScore 5 (JNum 7) (Some ''7'') = (JNum 7, Some ''7'')"
    using high_score_is_max [where hs = "JStr ''3''" and h = 3 and sc = 5 and sto = "Some ''3''"]
      high_score_is_max [where hs = "JNum 7" and h = 7 and sc = 5 and sto = "Some ''7''"]
    by (simp_all add: digitOf_def numToString_digits)
  have W: "\<exists>w1 w2. whackStartGame times thirdRnd ?w = Inr w1 \<and> whackRun times thirdRnd ?wes w1 = Inr w2
      \<and> score w2 = 5 \<and> stored w2 = Some ''5'' \<and> highScoreIs 5 w2"
    using w1 w2 w3 w4 by (intro exI [of _ ?w1] exI [of _ ?w2]) simp
  have S: "\<exists>s2. snakeRun halfRnd 400 400 ?ses snakeStarted = Some (Inr s2)
      \<and> score s2 = 0 \<and> highScoreIs 0 s2"
    using s2 s4 by (intro exI [of _ ?s2]) simp
  have R: "\<exists>r2. runnerRun doubleAddSample minus halfRnd 800 ?res (runnerStartGame ?r) = Some r2
      \<and> score r2 = 0 \<and> stored r2 = None \<and> highScoreIs 0 r2"
    using r2 r3 r4 by (intro exI [of _ ?r2]) simp
  show ?thesis
    using W S R u by blast
qed

section \<open>Image Puzzle: the empty slot\<close>

lemma inGrid_setTile [simp]: "inGrid (setTile g r c t) r' c' = inGrid g r' c'"
  by (cases "r' = r") (auto simp: inGrid_def setTile_def)

lemma tileAt_setTile:
  "inGrid g r c \<Longrightarrow>
   tileAt (setTile g r c t) r' c' = (if r' = r \<and> c' = c then t else tileAt g r' c')"
  by (auto simp: inGrid_def setTile_def tileAt_def nth_list_update)

lemma uniqueEmpty_iff:
  "uniqueEmpty st =
     (inGrid (grid st) (row (emptyTile st)) (col (emptyTile st))
      \<and> (\<forall>r c. inGrid (grid st) r c \<longrightarrow>
            isEmpty (tileAt (grid st) r c) = (r = row (emptyTile st) \<and> c = col (emptyTile st))))"
  by (auto simp: uniqueEmpty_def list_all_iff inGrid_def)

lemma uniqueEmpty_cong:
  "grid st' = grid st \<Longrightarrow> emptyTile st' = emptyTile st \<Longrightarrow> uniqueEmpty st' = uniqueEmpty st"
  by (simp add: uniqueEmpty_def)

lemma swapTiles_unique:
  assumes "uniqueEmpty st" "swapTiles r c st = Inr st'"
    and "r \<noteq> row (emptyTile st) \<or> c \<noteq> col (emptyTile st)"
  shows "uniqueEmpty st'"
proof -
  let ?er = "row (emptyTile st)" and ?ec = "col (emptyTile st)" and ?g = "grid st"
  have in1: "inGrid ?g r c" and in2: "inGrid ?g ?er ?ec"
    using assms(2) by (auto simp: swapTiles_def Let_def split: if_splits)
  let ?g1 = "setTile ?g r c ((tileAt ?g r c)\<lparr>content := None\<rparr>)"
  let ?g2 = "setTile ?g1 ?er ?ec ((tileAt ?g1 ?er ?ec)\<lparr>content := content (tileAt ?g r c)\<rparr>)"
  let ?g3 = "setTile ?g2 r c ((tileAt ?g2 r c)\<lparr>isEmpty := True\<rparr>)"
  let ?g4 = "setTile ?g3 ?er ?ec ((tileAt ?g3 ?er ?ec)\<lparr>isEmpty := False\<rparr>)"
  have st': "st' = st\<lparr>grid := ?g4, emptyTile := \<lparr>row = r, col = c\<rparr>\<rparr>"
    using assms(2) in1 in2 by (simp add: swapTiles_def Let_def)
  have old: "\<And>r' c'. inGrid ?g r' c' \<Longrightarrow> isEmpty (tileAt ?g r' c') = (r' = ?er \<and> c' = ?ec)"
    using assms(1) by (simp add: uniqueEmpty_iff)
  have new: "isEmpty (tileAt ?g4 r' c') = (r' = r \<and> c' = c)" if "inGrid ?g r' c'" for r' c'
    using that in1 in2 assms(3) old [OF that]
    by (auto simp: tileAt_setTile)
  show ?thesis
    unfolding uniqueEmpty_iff st' using in1 new by simp
qed

lemma adjacent_not_empty:
  "t \<in> set (getAdjacentTiles st) \<Longrightarrow> row t \<noteq> row (emptyTile st) \<or> col t \<noteq> col (emptyTile st)"
  by (auto simp: getAdjacentTiles_def Let_def split: if_splits)

lemma shuffleLoop_unique:
  "uniqueEmpty st \<Longrightarrow> shuffleLoop rnd n st = Inr st' \<Longrightarrow> uniqueEmpty st'"
proof (induction n arbitrary: st)
  case 0
  then show ?case by simp
next
  case (Suc n)
  let ?adj = "getAdjacentTiles st"
  let ?i = "randomBelow (rnd (rpos st)) (of_nat (length ?adj))"
  from Suc.prems(2) have rng: "0 \<le> ?i" "?i < int (length ?adj)"
    by (auto simp: Let_def split: if_splits)
  let ?t = "?adj ! nat ?i"
  have mem: "?t \<in> set ?adj" using rng by simp
  from Suc.prems(2) rng obtain st1 where
    sw: "swapTiles (row ?t) (col ?t) (st\<lparr>rpos := rpos st + 1\<rparr>) = Inr st1"
    and rest: "shuffleLoop rnd n st1 = Inr st'"
    by (auto simp: Let_def split: sum.splits)
  have u: "uniqueEmpty (st\<lparr>rpos := rpos st + 1\<rparr>)"
    using Suc.prems(1) by (simp add: uniqueEmpty_def)
  have "uniqueEmpty st1"
    using swapTiles_unique [OF u sw] adjacent_not_empty [OF mem] by simp
  then show ?case using Suc.IH rest by blast
qed

lemma createGrid_unique: "1 \<le> gridSize st \<Longrightarrow> uniqueEmpty (createGrid st)"
  by (auto simp: uniqueEmpty_iff createGrid_def Let_def inGrid_def tileAt_def newTile_def
      split: if_splits)

lemma moveTile_unique:
  assumes "uniqueEmpty st" "moveTile r c st = Inr st'"
  shows "uniqueEmpty st'"
proof (cases "(r = row (emptyTile st) \<and> \<bar>int c - int (col (emptyTile st))\<bar> = 1)
            \<or> (c = col (emptyTile st) \<and> \<bar>int r - int (row (emptyTile st))\<bar> = 1)")
  case False
  then have "moveTile r c st = Inr st"
    unfolding moveTile_def Let_def by (rule if_not_P)
  then show ?thesis using assms by simp
next
  case True
  then have ne: "r \<noteq> row (emptyTile st) \<or> c \<noteq> col (emptyTile st)" by auto
  from assms(2) True obtain st1 where sw: "swapTiles r c st = Inr st1"
    and g: "grid st' = grid st1" "emptyTile st' = emptyTile st1"
    by (auto simp: moveTile_def Let_def gameComplete_def clearTimer_def setTimer_def
        split: sum.splits if_splits option.splits)
  show ?thesis
    using swapTiles_unique [OF assms(1) sw ne] uniqueEmpty_cong [OF g] by simp
qed

lemma createGrid_gridSize [simp]: "gridSize (createGrid st) = gridSize st"
  by (simp add: createGrid_def Let_def)

lemma swapTiles_gridSize: "swapTiles r c st = Inr st' \<Longrightarrow> gridSize st' = gridSize st"
  by (auto simp: swapTiles_def Let_def split: if_splits)

lemma shuffleLoop_gridSize: "shuffleLoop rnd n st = Inr st' \<Longrightarrow> gridSize st' = gridSize st"
proof (induction n arbitrary: st)
  case 0
  then show ?case by simp
next
  case (Suc n)
  then show ?case
    by (auto simp: Let_def split: if_splits sum.splits dest!: swapTiles_gridSize)
qed

lemma moveTile_gridSize: "moveTile r c st = Inr st' \<Longrightarrow> gridSize st' = gridSize st"
  by (auto simp: moveTile_def Let_def gameComplete_def clearTimer_def setTimer_def
      split: sum.splits if_splits option.splits dest!: swapTiles_gridSize)

lemma puzzleStep_unique:
  assumes "difficultyOk e" "puzzleStep rnd e st = Inr st'" "uniqueEmpty st \<and> 1 \<le> gridSize st"
  shows "uniqueEmpty st' \<and> 1 \<le> gridSize st'"
proof (cases e)
  case PStart
  show ?thesis
  proof (cases "gameRunning st")
    case True
    then show ?thesis using assms PStart by (simp add: puzzleStep_def puzzleStartGame_def)
  next
    case False
    let ?s0 = "createGrid ((puzzleResetGame st)\<lparr>gameRunning := True\<rparr>)"
    from assms(2) PStart False obtain st1 where sh: "shuffleGrid rnd ?s0 = Inr st1"
      and g: "grid st' = grid st1" "emptyTile st' = emptyTile st1" "gridSize st' = gridSize st1"
      by (auto simp: puzzleStep_def puzzleStartGame_def setTimer_def split: sum.splits)
    have gs: "gridSize ?s0 = gridSize st"
      by (simp add: puzzleResetGame_def clearTimer_def split: option.splits)
    then have "uniqueEmpty ?s0" using assms(3) by (intro createGrid_unique) simp
    then have "uniqueEmpty st1"
      using sh shuffleLoop_unique by (simp add: shuffleGrid_def)
    moreover have "gridSize st1 = gridSize st"
      using sh shuffleLoop_gridSize gs by (simp add: shuffleGrid_def)
    ultimately show ?thesis using g assms(3) uniqueEmpty_cong [OF g(1,2)] by simp
  qed
next
  case PReset
  have "gridSize (puzzleResetGame st) = gridSize st"
    by (simp add: puzzleResetGame_def clearTimer_def split: option.splits)
  moreover have "uniqueEmpty (puzzleResetGame st)"
    unfolding puzzleResetGame_def using assms(3)
    by (intro createGrid_unique) (simp add: clearTimer_def split: option.splits)
  ultimately show ?thesis using assms PReset by (auto simp: puzzleStep_def)
next
  case (PClick r c)
  then show ?thesis
    using assms moveTile_unique [of st r c st'] moveTile_gridSize [of r c st st']
    by (auto simp: puzzleStep_def tileClick_def split: if_splits)
next
  case PTimer
  then show ?thesis
    using assms by (auto simp: puzzleStep_def puzzleTimerCallback_def uniqueEmpty_def)
next
  case (PDifficulty n)
  then show ?thesis
    using assms by (auto simp: puzzleStep_def setDifficulty_def uniqueEmpty_def)
qed

lemma puzzleRun_unique:
  assumes "list_all difficultyOk es" "puzzleRun rnd es st = Inr st'" "uniqueEmpty st \<and> 1 \<le> gridSize st"
  shows "uniqueEmpty st' \<and> 1 \<le> gridSize st'"
  using assms
proof (induction es arbitrary: st)
  case Nil
  then show ?case by simp
next
  case (Cons e es)
  then obtain st1 where s: "puzzleStep rnd e st = Inr st1" "puzzleRun rnd es st1 = Inr st'"
    by (auto split: sum.splits)
  show ?case
    using Cons.IH [OF _ s(2) puzzleStep_unique [OF _ s(1) Cons.prems(3)]] Cons.prems(1)
    by simp
qed

lemma squareGrid_inGrid:
  "squareGrid st \<Longrightarrow> inGrid (grid st) r c = (r < gridSize st \<and> c < gridSize st)"
  by (auto simp: squareGrid_def inGrid_def list_all_length)

lemma setTile_row_length: "length (setTile g r c t ! k) = length (g ! k)"
  by (cases "k = r"; cases "r < length g") (simp_all add: setTile_def list_update_beyond)

lemma setTile_length: "length (setTile g r c t) = length g"
  by (simp add: setTile_def)

lemma setTile_square:
  "list_all (\<lambda>rw. length rw = n) (setTile g r c t) = list_all (\<lambda>rw. length rw = n) g"
  by (simp add: list_all_length setTile_row_length setTile_length)

lemma createGrid_square: "1 \<le> gridSize st \<Longrightarrow> squareGrid (createGrid st)"
  by (auto simp: squareGrid_def createGrid_def Let_def list_all_length)

lemma adjacent_in_square:
  "squareGrid st \<Longrightarrow> t \<in> set (getAdjacentTiles st) \<Longrightarrow>
   row t < gridSize st \<and> col t < gridSize st"
  by (auto simp: getAdjacentTiles_def squareGrid_def Let_def split: if_splits)

lemma adjacent_nonempty:
  "squareGrid st \<Longrightarrow> 2 \<le> gridSize st \<Longrightarrow> getAdjacentTiles st \<noteq> []"
  by (auto simp: getAdjacentTiles_def squareGrid_def Let_def split: if_splits)

lemma swapTiles_square:
  assumes "squareGrid st" "r < gridSize st" "c < gridSize st"
  shows "\<exists>st'. swapTiles r c st = Inr st' \<and> squareGrid st' \<and> rpos st' = rpos st"
proof -
  have "inGrid (grid st) r c" "inGrid (grid st) (row (emptyTile st)) (col (emptyTile st))"
    using assms by (simp_all add: squareGrid_inGrid) (simp_all add: squareGrid_def)
  then show ?thesis
    using assms by (simp add: swapTiles_def Let_def squareGrid_def setTile_square setTile_length)
qed

lemma shuffleLoop_total:
  assumes "2 \<le> gridSize st" "\<forall>k. 0 \<le> rnd k \<and> rnd k < 1"
  shows "squareGrid st \<Longrightarrow> \<exists>st'. shuffleLoop rnd n st = Inr st'"
  using assms(1)
proof (induction n arbitrary: st)
  case 0
  then show ?case by simp
next
  case (Suc n)
  let ?adj = "getAdjacentTiles st"
  let ?i = "randomBelow (rnd (rpos st)) (of_nat (length ?adj))"
  have pos: "0 < length ?adj"
    using adjacent_nonempty [OF Suc.prems] by simp
  have rng: "0 \<le> ?i \<and> ?i < int (length ?adj)"
    using randomBelow_range [of "rnd (rpos st)" "length ?adj"] assms(2) pos by simp
  let ?t = "?adj ! nat ?i"
  have "?t \<in> set ?adj"
    by (intro nth_mem) (use rng in auto)
  then have tin: "row ?t < gridSize st \<and> col ?t < gridSize st"
    using adjacent_in_square [OF Suc.prems(1)] by blast
  let ?s = "st\<lparr>rpos := rpos st + 1\<rparr>"
  have sq: "squareGrid ?s" using Suc.prems(1) by (simp add: squareGrid_def)
  obtain st1 where sw: "swapTiles (row ?t) (col ?t) ?s = Inr st1" and sq1: "squareGrid st1"
    using swapTiles_square [OF sq, of "row ?t" "col ?t"] tin by auto
  have gs1: "2 \<le> gridSize st1"
    using swapTiles_gridSize [OF sw] Suc.prems(2) by simp
  obtain st' where "shuffleLoop rnd n st1 = Inr st'"
    using Suc.IH [OF sq1 gs1] by blast
  then show ?case
    using rng sw by (auto simp: Let_def)
qed

lemma shuffleGrid_total:
  assumes "2 \<le> gridSize st" "\<forall>k. 0 \<le> rnd k \<and> rnd k < 1"
  shows "\<exists>st'. shuffleGrid rnd (createGrid st) = Inr st' \<and> uniqueEmpty st'"
proof -
  have "squareGrid (createGrid st)" "uniqueEmpty (createGrid st)"
    using assms(1) by (simp_all add: createGrid_square createGrid_unique)
  then show ?thesis
    using shuffleLoop_total [of "createGrid st" rnd] shuffleLoop_unique assms
    unfolding shuffleGrid_def by (metis createGrid_gridSize)
qed

lemmas puzzle_eval = puzzleStep_def setDifficulty_def puzzleStartGame_def puzzleResetGame_def
  createGrid_def puzzleInit_def shuffleGrid_def getAdjacentTiles_def swapTiles_def inGrid_def
  tileAt_def setTile_def newTile_def tileClick_def moveTile_def isPuzzleSolved_def
  gameComplete_def puzzleTimerCallback_def halfRnd_def randomBelow_def clearTimer_def
  setTimer_def Let_def

text \<open>
  Claim C8: \<open>createGrid\<close> (for a grid size of at least 1) leaves exactly one tile of
  the grid with the class \<open>empty\<close>, at the place that \<open>emptyTile\<close> records; every swap
  that \<open>shuffleGrid\<close> makes and every \<open>moveTile\<close> keeps it so, and so does every run of
  the game's events from the grid of the page load (with difficulties of at least 1). For
  a grid size of at least 2 and random values in \<open>[0, 1)\<close> the shuffle returns.
\<close>

theorem empty_slot_unique:
  "(1 \<le> gridSize st \<longrightarrow> uniqueEmpty (createGrid st))
   \<and> (2 \<le> gridSize st \<and> (\<forall>k. 0 \<le> rnd k \<and> rnd k < 1) \<longrightarrow>
        (\<exists>st'. shuffleGrid rnd (createGrid st) = Inr st' \<and> uniqueEmpty st'))
   \<and> (uniqueEmpty st \<and> shuffleGrid rnd st = Inr st1 \<longrightarrow> uniqueEmpty st1)
   \<and> (uniqueEmpty st \<and> moveTile r c st = Inr st2 \<longrightarrow> uniqueEmpty st2)
   \<and> (list_all difficultyOk es \<and> puzzleRun rnd es (createGrid puzzleInit) = Inr st3 \<longrightarrow>
        uniqueEmpty st3)
   \<and> (uniqueEmpty st \<longrightarrow>
        inGrid (grid st) (row (emptyTile st)) (col (emptyTile st))
        \<and> (\<forall>r' c'. inGrid (grid st) r' c' \<longrightarrow>
              isEmpty (tileAt (grid st) r' c')
                = (r' = row (emptyTile st) \<and> c' = col (emptyTile st))))"
proof -
  have init: "uniqueEmpty (createGrid puzzleInit) \<and> 1 \<le> gridSize (createGrid puzzleInit)"
    using createGrid_unique [of puzzleInit] by (simp add: puzzleInit_def)
  show ?thesis
    using createGrid_unique [of st] shuffleGrid_total [of st rnd]
      shuffleLoop_unique [of st rnd "gridSize st * gridSize st * 10" st1]
      moveTile_unique [of st r c st2]
      puzzleRun_unique [OF _ _ init, of es rnd st3]
      uniqueEmpty_iff [of st]
    unfolding shuffleGrid_def by blast
qed


theorem empty_slot_unique_witness:
  "uniqueEmpty (createGrid puzzleInit)
   \<and> emptyTile (createGrid puzzleInit) = \<lparr>row = 3, col = 3\<rparr>
   \<and> (\<exists>st'. shuffleGrid halfRnd (createGrid puzzleInit) = Inr st' \<and> uniqueEmpty st')
   \<and> (\<exists>st2. moveTile 3 2 (createGrid puzzleInit) = Inr st2 \<and> uniqueEmpty st2
         \<and> emptyTile st2 = \<lparr>row = 3, col = 2\<rparr>
         \<and> isEmpty (tileAt (grid st2) 3 2) \<and> \<not> isEmpty (tileAt (grid st2) 3 3))
   \<and> (\<exists>st3. puzzleRun halfRnd [PDifficulty 2, PReset, PTimer] (createGrid puzzleInit) = Inr st3
         \<and> uniqueEmpty st3 \<and> emptyTile st3 = \<lparr>row = 1, col = 1\<rparr>)"
proof -
  let ?p = "createGrid puzzleInit"
  have gs: "1 \<le> gridSize puzzleInit" "2 \<le> gridSize puzzleInit"
    by (simp_all add: puzzleInit_def)
  have rn: "\<forall>k. 0 \<le> halfRnd k \<and> halfRnd k < 1"
    by (simp add: halfRnd_def)
  have A: "uniqueEmpty ?p"
    using empty_slot_unique [of puzzleInit] gs by blast
  have B: "\<exists>st'. shuffleGrid halfRnd ?p = Inr st' \<and> uniqueEmpty st'"
    using empty_slot_unique [of puzzleInit halfRnd] gs rn by blast
  let ?st2 = "projr (moveTile 3 2 ?p)"
  have m: "moveTile 3 2 ?p = Inr ?st2" "emptyTile ?st2 = \<lparr>row = 3, col = 2\<rparr>"
    "isEmpty (tileAt (grid ?st2) 3 2)" "\<not> isEmpty (tileAt (grid ?st2) 3 3)"
    by (simp_all add: puzzle_eval)
  have C: "uniqueEmpty ?st2"
    using empty_slot_unique [of ?p _ _ 3 2 ?st2] A m(1) by blast
  let ?es = "[PDifficulty 2, PReset, PTimer]"
  let ?st3 = "projr (puzzleRun halfRnd ?es ?p)"
  have r: "list_all difficultyOk ?es" "puzzleRun halfRnd ?es ?p = Inr ?st3"
    "emptyTile ?st3 = \<lparr>row = 1, col = 1\<rparr>"
    by (simp_all add: puzzle_eval)
  have D: "uniqueEmpty ?st3"
    using empty_slot_unique [where es = ?es and rnd = halfRnd and ?st3.0 = ?st3] r(1,2) by blast
  have E: "emptyTile ?p = \<lparr>row = 3, col = 3\<rparr>"
    by (simp add: createGrid_def puzzleInit_def)
  have M: "\<exists>st2. moveTile 3 2 ?p = Inr st2 \<and> uniqueEmpty st2
         \<and> emptyTile st2 = \<lparr>row = 3, col = 2\<rparr>
         \<and> isEmpty (tileAt (grid st2) 3 2) \<and> \<not> isEmpty (tileAt (grid st2) 3 3)"
    using m C by (intro exI [of _ ?st2]) simp
  have R: "\<exists>st3. puzzleRun halfRnd ?es ?p = Inr st3 \<and> uniqueEmpty st3
         \<and> emptyTile st3 = \<lparr>row = 1, col = 1\<rparr>"
    using r D by (intro exI [of _ ?st3]) simp
  show ?thesis
    using A B E M R by blast
qed

section \<open>Start and reset\<close>

lemma snakeReset_idem: "snakeResetGame (snakeResetGame s) = snakeResetGame s"
  by (cases "gameLoop s") (simp_all add: snakeResetGame_def clearTimer_def)

lemma runnerReset_idem: "runnerResetGame (runnerResetGame r) = runnerResetGame r"
  by (cases "gameLoop r") (simp_all add: runnerResetGame_def clearTimer_def)

lemma hideMole_idem: "hideMole \<circ> hideMole = hideMole"
  by (simp add: fun_eq_iff hideMole_def)

lemma conj_twice: "(A \<and> B \<and> A \<and> B) = (A \<and> B)"
  by blast

lemma whackReset_idem: "whackResetGame (whackResetGame w) = whackResetGame w"
  by (cases "gameTimer w"; cases "moleTimer w")
     (simp_all add: whackResetGame_def clearTimer_def Let_def hideMole_idem conj_twice)

lemma createGrid_idem: "createGrid (createGrid p) = createGrid p"
  by (simp add: createGrid_def Let_def)

lemma puzzleReset_idem: "puzzleResetGame (puzzleResetGame p) = puzzleResetGame p"
  by (cases "timerInterval p") (simp_all add: puzzleResetGame_def clearTimer_def createGrid_def Let_def)

text \<open>
  Claim C9: in Snake, Endless Runner, Whack-a-Mole and the Image Puzzle (the games with a
  start button), \<open>startGame\<close> on a running session returns the state as it is, so no
  second timer is set; \<open>resetGame\<close>, on a running or a stopped session, leaves the score
  (the move counter in the puzzle) at 0, the timer value at its start value, the session
  stopped and its timers cleared, and a second reset changes nothing more.
\<close>

theorem start_reset_idempotent:
  "(gameRunning s \<longrightarrow> snakeStartGame rnd cw ch s = Some s)
   \<and> (gameRunning r \<longrightarrow> runnerStartGame r = r)
   \<and> (gameRunning w \<longrightarrow> whackStartGame mul rnd w = Inr w)
   \<and> (gameRunning p \<longrightarrow> puzzleStartGame rnd p = Inr p)
   \<and> score (snakeResetGame s) = 0 \<and> \<not> gameRunning (snakeResetGame s)
   \<and> \<not> isActive (gameLoop (snakeResetGame s)) (snakeResetGame s)
   \<and> snakeResetGame (snakeResetGame s) = snakeResetGame s
   \<and> score (runnerResetGame r) = 0 \<and> \<not> gameRunning (runnerResetGame r)
   \<and> \<not> isActive (gameLoop (runnerResetGame r)) (runnerResetGame r)
   \<and> runnerResetGame (runnerResetGame r) = runnerResetGame r
   \<and> score (whackResetGame w) = 0 \<and> timeLeft (whackResetGame w) = 30
   \<and> \<not> gameRunning (whackResetGame w)
   \<and> \<not> isActive (gameTimer (whackResetGame w)) (whackResetGame w)
   \<and> \<not> isActive (moleTimer (whackResetGame w)) (whackResetGame w)
   \<and> whackResetGame (whackResetGame w) = whackResetGame w
   \<and> moves (puzzleResetGame p) = 0 \<and> timer (puzzleResetGame p) = 0
   \<and> \<not> gameRunning (puzzleResetGame p)
   \<and> \<not> isActive (timerInterval (puzzleResetGame p)) (puzzleResetGame p)
   \<and> puzzleResetGame (puzzleResetGame p) = puzzleResetGame p"
proof -
  have starts: "gameRunning s \<longrightarrow> snakeStartGame rnd cw ch s = Some s"
    "gameRunning r \<longrightarrow> runnerStartGame r = r"
    "gameRunning w \<longrightarrow> whackStartGame mul rnd w = Inr w"
    "gameRunning p \<longrightarrow> puzzleStartGame rnd p = Inr p"
    by (simp_all add: snakeStartGame_def runnerStartGame_def whackStartGame_def puzzleStartGame_def)
  have sn: "score (snakeResetGame s) = 0 \<and> \<not> gameRunning (snakeResetGame s)
      \<and> \<not> isActive (gameLoop (snakeResetGame s)) (snakeResetGame s)"
    by (cases "gameLoop s") (auto simp: snakeResetGame_def clearTimer_def isActive_def)
  have rn: "score (runnerResetGame r) = 0 \<and> \<not> gameRunning (runnerResetGame r)
      \<and> \<not> isActive (gameLoop (runnerResetGame r)) (runnerResetGame r)"
    by (cases "gameLoop r") (auto simp: runnerResetGame_def clearTimer_def isActive_def)
  have wh: "score (whackResetGame w) = 0 \<and> timeLeft (whackResetGame w) = 30
      \<and> \<not> gameRunning (whackResetGame w)
      \<and> \<not> isActive (gameTimer (whackResetGame w)) (whackResetGame w)
      \<and> \<not> isActive (moleTimer (whackResetGame w)) (whackResetGame w)"
    by (cases "gameTimer w"; cases "moleTimer w")
       (auto simp: whackResetGame_def clearTimer_def isActive_def Let_def)
  have pz: "moves (puzzleResetGame p) = 0 \<and> timer (puzzleResetGame p) = 0
      \<and> \<not> gameRunning (puzzleResetGame p)
      \<and> \<not> isActive (timerInterval (puzzleResetGame p)) (puzzleResetGame p)"
    by (cases "timerInterval p")
       (auto simp: puzzleResetGame_def clearTimer_def isActive_def createGrid_def Let_def)
  show ?thesis
    using starts sn rn wh pz snakeReset_idem [of s] runnerReset_idem [of r]
      whackReset_idem [of w] puzzleReset_idem [of p]
    by blast
qed

theorem start_reset_idempotent_witness:
  "snakeStartGame halfRnd 400 400 snakeStarted = Some snakeStarted
   \<and> runnerStartGame (runnerStartGame (runnerLoaded halfRnd 800 300 (runnerInit None)))
       = runnerStartGame (runnerLoaded halfRnd 800 300 (runnerInit None))
   \<and> whackStartGame times thirdRnd (projr (whackStartGame times thirdRnd (createMoleGrid (whackInit None))))
       = whackStartGame times thirdRnd (createMoleGrid (whackInit None))
   \<and> puzzleStartGame halfRnd ((createGrid puzzleInit)\<lparr>gameRunning := True\<rparr>)
       = Inr ((createGrid puzzleInit)\<lparr>gameRunning := True\<rparr>)
   \<and> score (snakeResetGame (snakeGameOver (snakeStarted\<lparr>score := 3\<rparr>))) = 0"
proof -
  let ?r = "runnerStartGame (runnerLoaded halfRnd 800 300 (runnerInit None))"
  let ?w = "projr (whackStartGame times thirdRnd (createMoleGrid (whackInit None)))"
  let ?p = "(createGrid puzzleInit)\<lparr>gameRunning := True\<rparr>"
  have run: "gameRunning snakeStarted" "gameRunning ?r" "gameRunning ?w" "gameRunning ?p"
    by (simp_all add: snakeStarted_def runner_eval whack_eval)
  have w: "whackStartGame times thirdRnd (createMoleGrid (whackInit None)) = Inr ?w"
    by (simp add: whack_eval)
  note t = start_reset_idempotent [where s = snakeStarted and rnd = halfRnd and cw = 400
      and ch = 400 and r = ?r and p = ?p]
  note t' = start_reset_idempotent [where rnd = thirdRnd and w = ?w]
  note u = start_reset_idempotent [where s = "snakeGameOver (snakeStarted\<lparr>score := 3\<rparr>)"]
  have 1: "snakeStartGame halfRnd 400 400 snakeStarted = Some snakeStarted"
    using t run by blast
  have 2: "runnerStartGame ?r = ?r"
    using t run by blast
  have 3: "whackStartGame times thirdRnd ?w = Inr ?w"
    using t' run by blast
  have 5: "score (snakeResetGame (snakeGameOver (snakeStarted\<lparr>score := 3\<rparr>))) = 0"
    using u by blast
  have 6: "puzzleStartGame halfRnd ?p = Inr ?p"
    using t run by blast
  show ?thesis
    using 1 2 3 5 6 w by simp
qed

section \<open>Endless Runner: the spawn rate across sessions\<close>

lemma newCloud_staysOn:
  assumes "\<forall>k. 0 \<le> rnd k \<and> rnd k < 1"
  shows "staysOn (fst (newCloud rnd cw False pos))"
proof -
  have w: "0 \<le> randomBelow (rnd (pos + 1)) 60"
    using randomBelow_range [of "rnd (pos + 1)" 60] assms by simp
  have s: "rnd (pos + 2) < 1" using assms by simp
  have "(0::rat) \<le> of_nat cw" by simp
  then show ?thesis
    using w s by (simp add: staysOn_def newCloud_def Let_def)
qed

lemma updateCloudsLoop_split:
  assumes "\<forall>k. 0 \<le> rnd k \<and> rnd k < 1"
  shows "\<forall>c\<in>set late. staysOn c \<Longrightarrow>
         \<exists>res. updateCloudsLoop rnd cw seen (early @ late) pos = Some res"
proof (induction early arbitrary: seen late pos)
  case Nil
  then show ?case
    using updateCloudsLoop_stay [of late rnd cw seen pos] by (simp add: staysOn_def)
next
  case (Cons c early)
  show ?case
  proof (cases "x c - speed c + width c < 0")
    case True
    let ?n = "fst (newCloud rnd cw False pos)"
    have "\<forall>c\<in>set (late @ [?n]). staysOn c"
      using Cons.prems newCloud_staysOn [OF assms] by simp
    from Cons.IH [OF this, of seen "snd (newCloud rnd cw False pos)"]
    show ?thesis
      using True by (subst updateCloudsLoop.simps) (simp add: Let_def)
  next
    case False
    from Cons.IH [OF Cons.prems, of "seen @ [c\<lparr>x := x c - speed c\<rparr>]" pos]
    show ?thesis
      using False by (subst updateCloudsLoop.simps) (simp add: Let_def)
  qed
qed

lemma runnerGameUpdate_total:
  assumes "\<forall>k. 0 \<le> rnd k \<and> rnd k < 1"
  shows "\<exists>st'. runnerGameUpdate add sub rnd cw st = Some st'"
proof -
  obtain res where "updateCloudsLoop rnd cw [] (clouds st @ []) (rpos st) = Some res"
    using updateCloudsLoop_split [OF assms, of "[]" cw "[]" "clouds st" "rpos st"] by auto
  then show ?thesis
    by (cases res) (simp add: runnerGameUpdate_def updateClouds_def Let_def)
qed

lemma runnerRun_total:
  assumes "\<forall>k. 0 \<le> rnd k \<and> rnd k < 1"
  shows "\<exists>st'. runnerRun add sub rnd cw es st = Some st'"
proof (induction es arbitrary: st)
  case Nil
  then show ?case by simp
next
  case (Cons e es)
  obtain st1 where "runnerStep add sub rnd cw e st = Some st1"
    using runnerGameUpdate_total [OF assms, of add sub cw st]
    by (cases e) (auto simp: runnerStep_def)
  then show ?case using Cons.IH [of st1] by simp
qed

lemma runner_tail_counts:
  "frameCount (checkCollisions st) = frameCount st"
  "spawnRate (checkCollisions st) = spawnRate st"
  "frameCount (runnerSpawnStep rnd cw st) = frameCount st"
  "spawnRate (runnerSpawnStep rnd cw st) =
     (if spawnRate st \<noteq> 0 \<and> frameCount st mod spawnRate st = 0 \<and> 60 < spawnRate st
      then spawnRate st - 5 else spawnRate st)"
  "frameCount (runnerSpeedStep st) = frameCount st"
  "spawnRate (runnerSpeedStep st) = spawnRate st"
  "frameCount (runnerScoreStep st) = frameCount st"
  "spawnRate (runnerScoreStep st) = spawnRate st"
  by (simp_all add: checkCollisions_def runnerGameOver_def clearTimer_alt runnerSpawnStep_def
      runnerSpeedStep_def runnerScoreStep_def createObstacle_def Let_def split: prod.splits)

lemma runnerGameUpdate_spawnRate:
  assumes "runnerGameUpdate add sub rnd cw st = Some st'"
  shows "frameCount st' = frameCount st + 1
    \<and> spawnRate st' =
        (if spawnRate st \<noteq> 0 \<and> (frameCount st + 1) mod spawnRate st = 0 \<and> 60 < spawnRate st
         then spawnRate st - 5 else spawnRate st)"
proof -
  from assms obtain st1 where c: "updateClouds rnd cw st = Some st1"
    by (auto simp: runnerGameUpdate_def split: option.splits)
  note f = updateClouds_fields [OF c]
  let ?st4 = "st1\<lparr>player := updatePlayer add sub (ground st1) (player st1),
                 obstacles := updateObstacles (gameSpeed st1) (obstacles st1),
                 frameCount := frameCount st1 + 1\<rparr>"
  have st': "st' = checkCollisions (runnerSpawnStep rnd cw (runnerSpeedStep (runnerScoreStep ?st4)))"
    using assms c by (simp add: runnerGameUpdate_def Let_def)
  have 4: "frameCount ?st4 = frameCount st + 1" "spawnRate ?st4 = spawnRate st"
    using f by simp_all
  show ?thesis
    unfolding st' runner_tail_counts 4 by simp
qed

lemma spawnOk_step: "spawnOk n \<Longrightarrow> 60 < n \<Longrightarrow> spawnOk (n - 5)"
  unfolding spawnOk_def by presburger

lemma runnerStep_spawnRate:
  assumes "runnerStep add sub rnd cw e st = Some st'"
  shows "spawnRate st' \<le> spawnRate st \<and> (spawnOk (spawnRate st) \<longrightarrow> spawnOk (spawnRate st'))"
proof (cases e)
  case RFrame
  then have "runnerGameUpdate add sub rnd cw st = Some st'" using assms by (simp add: runnerStep_def)
  from runnerGameUpdate_spawnRate [OF this] show ?thesis
    using spawnOk_step [of "spawnRate st"] by (simp split: if_splits)
next
  case RStart
  then show ?thesis
    using assms by (auto simp: runnerStep_def runnerStartGame_def setTimer_def Let_def)
next
  case RReset
  then show ?thesis
    using assms by (auto simp: runnerStep_def runnerResetGame_def clearTimer_alt)
next
  case (RKey k)
  then show ?thesis
    using assms by (auto simp: runnerStep_def runnerKeydown_def)
qed

lemma runnerRun_spawnRate:
  "runnerRun add sub rnd cw es st = Some st' \<Longrightarrow>
   spawnRate st' \<le> spawnRate st \<and> (spawnOk (spawnRate st) \<longrightarrow> spawnOk (spawnRate st'))"
proof (induction es arbitrary: st)
  case Nil
  then show ?case by simp
next
  case (Cons e es)
  then obtain st1 where s: "runnerStep add sub rnd cw e st = Some st1" "runnerRun add sub rnd cw es st1 = Some st'"
    by (auto split: option.splits)
  have a: "spawnRate st1 \<le> spawnRate st" "spawnOk (spawnRate st) \<longrightarrow> spawnOk (spawnRate st1)"
    using runnerStep_spawnRate [OF s(1)] by simp_all
  have b: "spawnRate st' \<le> spawnRate st1" "spawnOk (spawnRate st1) \<longrightarrow> spawnOk (spawnRate st')"
    using Cons.IH [OF s(2)] by simp_all
  show ?case
    using a b le_trans by blast
qed

lemma runnerRun_append:
  "runnerRun add sub rnd cw (es @ fs) st =
     (case runnerRun add sub rnd cw es st of None \<Rightarrow> None | Some st1 \<Rightarrow> runnerRun add sub rnd cw fs st1)"
  by (induction es arbitrary: st) (simp_all split: option.splits)

lemma frames_below_100:
  "runnerRun add sub rnd cw (replicate n RFrame) st = Some st' \<Longrightarrow> spawnRate st = 100 \<Longrightarrow>
   frameCount st + n < 100 \<Longrightarrow> frameCount st' = frameCount st + n \<and> spawnRate st' = 100"
proof (induction n arbitrary: st)
  case 0
  then show ?case by simp
next
  case (Suc n)
  then obtain st1 where s: "runnerGameUpdate add sub rnd cw st = Some st1"
      "runnerRun add sub rnd cw (replicate n RFrame) st1 = Some st'"
    by (auto simp: runnerStep_def split: option.splits)
  have 1: "frameCount st1 = frameCount st + 1" "spawnRate st1 = 100"
    using runnerGameUpdate_spawnRate [OF s(1)] Suc.prems(2,3) by simp_all
  show ?case
    using Suc.IH [OF s(2) 1(2)] 1(1) Suc.prems(3) by simp
qed

lemma frames_100:
  assumes "runnerRun add sub rnd cw (replicate 100 RFrame) st = Some st'"
    and "spawnRate st = 100" "frameCount st = 0"
  shows "spawnRate st' = 95"
proof -
  have "replicate (Suc 99) RFrame = replicate 99 RFrame @ [RFrame]"
    by (simp only: replicate_Suc replicate_append_same)
  moreover have "(100::nat) = Suc 99"
    by simp
  ultimately have "replicate 100 RFrame = replicate 99 RFrame @ [RFrame]"
    by metis
  then obtain st1 where s: "runnerRun add sub rnd cw (replicate 99 RFrame) st = Some st1"
      "runnerGameUpdate add sub rnd cw st1 = Some st'"
    using assms(1) by (auto simp: runnerRun_append runnerStep_def split: option.splits)
  have "frameCount st1 = 99 \<and> spawnRate st1 = 100"
    using frames_below_100 [OF s(1) assms(2)] assms(3) by simp
  then show ?thesis
    using runnerGameUpdate_spawnRate [OF s(2)] by simp
qed

lemma createCloud_fields:
  "spawnRate (createCloud rnd cw i st) = spawnRate st"
  "gameRunning (createCloud rnd cw i st) = gameRunning st"
  by (simp_all add: createCloud_def split: prod.splits)

lemma runnerLoaded_fields:
  "spawnRate (runnerLoaded rnd cw ch st) = spawnRate st"
  "gameRunning (runnerLoaded rnd cw ch st) = gameRunning st"
  by (simp_all add: runnerLoaded_def Let_def funpow_5 createCloud_fields)

lemma second_session_spawnRate:
  assumes "\<forall>k. 0 \<le> rnd k \<and> rnd k < 1"
  shows "\<exists>r3. runnerRun add sub rnd cw (RStart # replicate 100 RFrame @ [RReset, RStart])
                 (runnerLoaded rnd cw ch (runnerInit sto)) = Some r3
            \<and> spawnRate r3 = 95 \<and> gameRunning r3 \<and> frameCount r3 = 0 \<and> score r3 = 0"
proof -
  let ?r0 = "runnerLoaded rnd cw ch (runnerInit sto)"
  let ?r1 = "runnerStartGame ?r0"
  have r0: "spawnRate ?r0 = 100" "\<not> gameRunning ?r0"
    by (simp_all add: runnerLoaded_fields runnerInit_def)
  have r1: "spawnRate ?r1 = 100" "frameCount ?r1 = 0"
    using r0 by (simp_all add: runnerStartGame_def Let_def setTimer_def)
  obtain r2 where r2: "runnerRun add sub rnd cw (replicate 100 RFrame) ?r1 = Some r2"
    using runnerRun_total [OF assms] by blast
  have s2: "spawnRate r2 = 95"
    using frames_100 [OF r2 r1] .
  let ?r3 = "runnerStartGame (runnerResetGame r2)"
  have "runnerRun add sub rnd cw (RStart # replicate 100 RFrame @ [RReset, RStart]) ?r0 = Some ?r3"
    using r2 by (simp add: runnerRun_append runnerStep_def)
  moreover have "spawnRate ?r3 = 95 \<and> gameRunning ?r3 \<and> frameCount ?r3 = 0 \<and> score ?r3 = 0"
    using s2 by (simp add: runnerStartGame_def runnerResetGame_def clearTimer_alt setTimer_def Let_def)
  ultimately show ?thesis by blast
qed

text \<open>
  Claim C10: \<open>startGame\<close> leaves \<open>spawnRate\<close> as it is, and on a stopped session
  resets the score, the game speed, the frame counter, the obstacle list and the
  player's position and jump state; \<open>resetGame\<close> leaves \<open>spawnRate\<close>, \<open>gameSpeed\<close> and
  \<open>frameCount\<close> as they are. Over any events \<open>spawnRate\<close> never increases, and from the
  page load on it stays between 60 and 100. So a second session starts with the spawn
  rate the first one reached: after a first session of 100 frames, a reset and a new
  start, the session begins with the spawn rate 95 (random values in \<open>[0, 1)\<close>, for
  which every frame returns).
\<close>

theorem spawnRate_carries_over:
  "spawnRate (runnerStartGame r) = spawnRate r
   \<and> (\<not> gameRunning r \<longrightarrow>
        score (runnerStartGame r) = 0 \<and> gameSpeed (runnerStartGame r) = 5
        \<and> frameCount (runnerStartGame r) = 0 \<and> obstacles (runnerStartGame r) = []
        \<and> player (runnerStartGame r)
            = (player r)\<lparr>y := ground r - height (player r), jumping := False, jumpVelocity := 0\<rparr>)
   \<and> spawnRate (runnerResetGame r) = spawnRate r
   \<and> gameSpeed (runnerResetGame r) = gameSpeed r
   \<and> frameCount (runnerResetGame r) = frameCount r
   \<and> (runnerRun add sub rnd cw es r = Some r1 \<longrightarrow> spawnRate r1 \<le> spawnRate r)
   \<and> (runnerRun add sub rnd cw es (runnerLoaded rnd0 cw0 ch0 (runnerInit sto)) = Some r2 \<longrightarrow>
        60 \<le> spawnRate r2 \<and> spawnRate r2 \<le> 100)
   \<and> ((\<forall>k. 0 \<le> rnd k \<and> rnd k < 1) \<longrightarrow>
        (\<exists>r3. runnerRun add sub rnd cw (RStart # replicate 100 RFrame @ [RReset, RStart])
                 (runnerLoaded rnd cw ch (runnerInit sto)) = Some r3
            \<and> spawnRate r3 = 95 \<and> gameRunning r3 \<and> frameCount r3 = 0 \<and> score r3 = 0))"
proof -
  have a: "spawnRate (runnerStartGame r) = spawnRate r"
    "\<not> gameRunning r \<longrightarrow>
        score (runnerStartGame r) = 0 \<and> gameSpeed (runnerStartGame r) = 5
        \<and> frameCount (runnerStartGame r) = 0 \<and> obstacles (runnerStartGame r) = []
        \<and> player (runnerStartGame r)
            = (player r)\<lparr>y := ground r - height (player r), jumping := False, jumpVelocity := 0\<rparr>"
    by (simp_all add: runnerStartGame_def Let_def setTimer_def)
  have b: "spawnRate (runnerResetGame r) = spawnRate r"
    "gameSpeed (runnerResetGame r) = gameSpeed r" "frameCount (runnerResetGame r) = frameCount r"
    by (simp_all add: runnerResetGame_def clearTimer_alt)
  have c: "runnerRun add sub rnd cw es r = Some r1 \<longrightarrow> spawnRate r1 \<le> spawnRate r"
    using runnerRun_spawnRate [of add sub rnd cw es r r1] by blast
  have "spawnOk (spawnRate (runnerLoaded rnd0 cw0 ch0 (runnerInit sto)))"
    by (simp add: runnerLoaded_fields runnerInit_def spawnOk_def)
  then have d: "runnerRun add sub rnd cw es (runnerLoaded rnd0 cw0 ch0 (runnerInit sto)) = Some r2 \<longrightarrow>
        60 \<le> spawnRate r2 \<and> spawnRate r2 \<le> 100"
    using runnerRun_spawnRate [of add sub rnd cw es _ r2] unfolding spawnOk_def by blast
  show ?thesis
    using a b c d second_session_spawnRate [where rnd = rnd and add = add and sub = sub and cw = cw
        and ch = ch and sto = sto] by blast
qed

theorem spawnRate_carries_over_witness:
  "(\<exists>r3. runnerRun doubleAddSample minus halfRnd 800 (RStart # replicate 100 RFrame @ [RReset, RStart])
            (runnerLoaded halfRnd 800 300 (runnerInit None)) = Some r3
       \<and> spawnRate r3 = 95 \<and> gameRunning r3 \<and> frameCount r3 = 0 \<and> score r3 = 0)
   \<and> (\<exists>r1. runnerRun doubleAddSample minus halfRnd 800 [RStart, RFrame, RReset]
            (runnerLoaded halfRnd 800 300 (runnerInit None)) = Some r1
       \<and> 60 \<le> spawnRate r1 \<and> spawnRate r1 \<le> 100 \<and> frameCount r1 = 1 \<and> gameSpeed r1 = 5)
   \<and> score (runnerStartGame (runnerLoaded halfRnd 800 300 (runnerInit None))) = 0
   \<and> frameCount (runnerStartGame (runnerLoaded halfRnd 800 300 (runnerInit None))) = 0
   \<and> spawnRate (runnerStartGame (runnerLoaded halfRnd 800 300 (runnerInit None))) = 100"
proof -
  let ?r0 = "runnerLoaded halfRnd 800 300 (runnerInit None)"
  let ?es = "[RStart, RFrame, RReset]"
  let ?r1 = "the (runnerRun doubleAddSample minus halfRnd 800 ?es ?r0)"
  have rn: "\<forall>k. 0 \<le> halfRnd k \<and> halfRnd k < 1"
    by (simp add: halfRnd_def)
  have r0: "\<not> gameRunning ?r0" "spawnRate ?r0 = 100"
    by (simp_all add: runner_eval)
  have run: "runnerRun doubleAddSample minus halfRnd 800 ?es ?r0 = Some ?r1" "frameCount ?r1 = 1" "gameSpeed ?r1 = 5"
    by (simp_all add: runner_eval)
  note t = spawnRate_carries_over [where r = ?r0 and rnd = halfRnd and cw = 800 and es = ?es
      and ?r1.0 = ?r1 and ?rnd0.0 = halfRnd and ?cw0.0 = 800 and ?ch0.0 = 300 and sto = None
      and ?r2.0 = ?r1 and ch = 300]
  have A: "\<exists>r3. runnerRun doubleAddSample minus halfRnd 800 (RStart # replicate 100 RFrame @ [RReset, RStart]) ?r0 = Some r3
       \<and> spawnRate r3 = 95 \<and> gameRunning r3 \<and> frameCount r3 = 0 \<and> score r3 = 0"
    using t rn by blast
  have B: "60 \<le> spawnRate ?r1 \<and> spawnRate ?r1 \<le> 100"
    using t run(1) by blast
  have C: "score (runnerStartGame ?r0) = 0 \<and> frameCount (runnerStartGame ?r0) = 0
      \<and> spawnRate (runnerStartGame ?r0) = spawnRate ?r0"
    using t r0(1) by blast
  have D: "\<exists>r1. runnerRun doubleAddSample minus halfRnd 800 ?es ?r0 = Some r1
       \<and> 60 \<le> spawnRate r1 \<and> spawnRate r1 \<le> 100 \<and> frameCount r1 = 1 \<and> gameSpeed r1 = 5"
    using run B by (intro exI [of _ ?r1]) simp
  show ?thesis
    using A C D r0(2) by simp
qed

section \<open>Callbacks after a reset\<close>

text \<open>
  What \<open>clearInterval\<close> leaves of the timers, and the timers over a run of each game:
  the predicates \<open>loopTimerOk\<close> and \<open>whackTimersOk\<close> hold when the page has loaded and
  after every event.
\<close>

lemma clearTimer_timers:
  "timers (clearTimer h b) = filter (\<lambda>t. Some (handle t) \<noteq> h) (timers b)"
  by (cases h) (simp_all add: clearTimer_def)

lemma one_handle:
  "map (\<lambda>t. Some (handle t)) ts = [h] \<Longrightarrow> filter (\<lambda>t. Some (handle t) \<noteq> h) ts = []"
  by (auto simp: map_eq_Cons_conv)

lemma two_handles:
  "map (\<lambda>t. Some (handle t)) ts = [g, m] \<Longrightarrow>
   filter (\<lambda>t. Some (handle t) \<noteq> m) (filter (\<lambda>t. Some (handle t) \<noteq> g) ts) = []"
  by (auto simp: map_eq_Cons_conv)

lemma loopTimerOk_cong:
  "gameRunning a = gameRunning b \<Longrightarrow> gameLoop a = gameLoop b \<Longrightarrow> timers a = timers b
   \<Longrightarrow> loopTimerOk a = loopTimerOk b"
  by (simp add: loopTimerOk_def)

lemma loopTimerOk_cleared:
  "loopTimerOk st \<Longrightarrow> timers (clearTimer (gameLoop st) st) = []"
  by (auto simp: loopTimerOk_def clearTimer_timers one_handle split: if_splits)

lemma createFood_timers:
  "createFood rnd cw ch st = Some st' \<Longrightarrow>
   timers st' = timers st \<and> gameRunning st' = gameRunning st \<and> gameLoop st' = gameLoop st
   \<and> nextHandle st' = nextHandle st"
  by (auto simp: createFood_def split: option.splits prod.splits)

lemma snakeStep_loopTimerOk:
  assumes "loopTimerOk st" "snakeStep rnd cw ch e st = Some (Inr st')"
  shows "loopTimerOk st'"
proof (cases e)
  case SStart
  show ?thesis
  proof (cases "gameRunning st")
    case True
    then show ?thesis using assms SStart by (simp add: snakeStep_def snakeStartGame_def)
  next
    case False
    then have t: "timers st = []" using assms(1) by (simp add: loopTimerOk_def)
    from assms(2) SStart False obtain st1 where
      f: "createFood rnd cw ch (st\<lparr>snake := [\<lparr>x = 10, y = 10\<rparr>, \<lparr>x = 9, y = 10\<rparr>, \<lparr>x = 8, y = 10\<rparr>]\<rparr>) = Some st1"
      and s: "st' = (setTimer Interval (gameSpeed (st1\<lparr>score := 0, direction := Right, newDirection := Right,
                         gameRunning := True\<rparr>)) (st1\<lparr>score := 0, direction := Right, newDirection := Right,
                         gameRunning := True\<rparr>))\<lparr>gameLoop := Some (nextHandle st1)\<rparr>"
      by (auto simp: snakeStep_def snakeStartGame_def Let_def split: option.splits)
    show ?thesis
      using createFood_timers [OF f] t by (simp add: s loopTimerOk_def setTimer_def)
  qed
next
  case SReset
  then have "st' = snakeResetGame st" using assms by (simp add: snakeStep_def)
  then show ?thesis
    using loopTimerOk_cleared [OF assms(1)] by (simp add: snakeResetGame_def loopTimerOk_def clearTimer_alt)
next
  case (SKey k)
  then have "st' = changeDirection k st" using assms by (simp add: snakeStep_def)
  then show ?thesis
    using assms(1) by (simp add: changeDirection_def loopTimerOk_def)
next
  case STick
  then have u: "snakeGameUpdate rnd cw ch st = Some (Inr st')" using assms by (simp add: snakeStep_def)
  have o: "loopTimerOk (snakeGameOver (st\<lparr>direction := newDirection st\<rparr>))"
    using loopTimerOk_cleared [OF assms(1)]
    by (simp add: snakeGameOver_def loopTimerOk_def clearTimer_timers)
  have k: "timers st' = timers st \<and> gameRunning st' = gameRunning st \<and> gameLoop st' = gameLoop st"
    if "st' \<noteq> snakeGameOver (st\<lparr>direction := newDirection st\<rparr>)"
    using u that
    by (auto simp: snakeGameUpdate_def Let_def split: list.splits if_splits prod.splits
        dest!: createFood_timers)
  show ?thesis
  proof (cases "st' = snakeGameOver (st\<lparr>direction := newDirection st\<rparr>)")
    case True
    then show ?thesis using o by simp
  next
    case False
    then show ?thesis using k assms(1) loopTimerOk_cong [of st' st] by blast
  qed
qed

lemma snakeRun_loopTimerOk:
  "loopTimerOk st \<Longrightarrow> snakeRun rnd cw ch es st = Some (Inr st') \<Longrightarrow> loopTimerOk st'"
proof (induction es arbitrary: st)
  case Nil
  then show ?case by simp
next
  case (Cons e es)
  from Cons.prems(2) obtain st1 where s: "snakeStep rnd cw ch e st = Some (Inr st1)"
    and r: "snakeRun rnd cw ch es st1 = Some (Inr st')"
    by (auto split: option.splits sum.splits)
  show ?case
    using Cons.IH [OF snakeStep_loopTimerOk [OF Cons.prems(1) s] r] .
qed

lemma updateClouds_timers:
  "updateClouds rnd cw st = Some st' \<Longrightarrow>
   timers st' = timers st \<and> gameRunning st' = gameRunning st \<and> gameLoop st' = gameLoop st"
  by (auto simp: updateClouds_def split: option.splits prod.splits)

lemma runner_tail_timers:
  "timers (runnerSpawnStep rnd cw (runnerSpeedStep (runnerScoreStep st))) = timers st
   \<and> gameRunning (runnerSpawnStep rnd cw (runnerSpeedStep (runnerScoreStep st))) = gameRunning st
   \<and> gameLoop (runnerSpawnStep rnd cw (runnerSpeedStep (runnerScoreStep st))) = gameLoop st"
  by (simp add: runnerSpawnStep_def runnerSpeedStep_def runnerScoreStep_def Let_def
      createObstacle_def split: prod.splits)

lemma checkCollisions_loopTimerOk: "loopTimerOk st \<Longrightarrow> loopTimerOk (checkCollisions st)"
  using loopTimerOk_cleared [of st]
  by (simp add: checkCollisions_def runnerGameOver_def loopTimerOk_def clearTimer_alt)

lemma runnerStep_loopTimerOk:
  assumes "loopTimerOk st" "runnerStep add sub rnd cw e st = Some st'"
  shows "loopTimerOk st'"
proof (cases e)
  case RStart
  then have s: "st' = runnerStartGame st" using assms by (simp add: runnerStep_def)
  show ?thesis
    using assms(1) by (simp add: s runnerStartGame_def loopTimerOk_def setTimer_def Let_def)
next
  case RReset
  then have "st' = runnerResetGame st" using assms by (simp add: runnerStep_def)
  then show ?thesis
    using loopTimerOk_cleared [OF assms(1)] by (simp add: runnerResetGame_def loopTimerOk_def clearTimer_alt)
next
  case (RKey k)
  then have "st' = runnerKeydown k st" using assms by (simp add: runnerStep_def)
  then show ?thesis
    using assms(1) by (simp add: runnerKeydown_def loopTimerOk_def)
next
  case RFrame
  then have t: "runnerGameUpdate add sub rnd cw st = Some st'"
    using assms by (simp add: runnerStep_def)
  then obtain st1 where c: "updateClouds rnd cw st = Some st1"
    by (auto simp: runnerGameUpdate_def split: option.splits)
  let ?st4 = "st1\<lparr>player := updatePlayer add sub (ground st1) (player st1),
                 obstacles := updateObstacles (gameSpeed st1) (obstacles st1),
                 frameCount := frameCount st1 + 1\<rparr>"
  let ?st5 = "runnerSpawnStep rnd cw (runnerSpeedStep (runnerScoreStep ?st4))"
  have st': "st' = checkCollisions ?st5"
    using t c by (simp add: runnerGameUpdate_def Let_def)
  have "loopTimerOk ?st5 = loopTimerOk st"
    by (rule loopTimerOk_cong) (simp_all add: runner_tail_timers updateClouds_timers [OF c])
  then show ?thesis
    using assms(1) checkCollisions_loopTimerOk [of ?st5] st' by blast
qed

lemma runnerRun_loopTimerOk:
  "loopTimerOk st \<Longrightarrow> runnerRun add sub rnd cw es st = Some st' \<Longrightarrow> loopTimerOk st'"
proof (induction es arbitrary: st)
  case Nil
  then show ?case by simp
next
  case (Cons e es)
  from Cons.prems(2) obtain st1 where s: "runnerStep add sub rnd cw e st = Some st1"
    and r: "runnerRun add sub rnd cw es st1 = Some st'"
    by (auto split: option.splits)
  show ?case
    using Cons.IH [OF runnerStep_loopTimerOk [OF Cons.prems(1) s] r] .
qed

lemma createCloud_timers:
  "timers (createCloud rnd cw i st) = timers st"
  by (simp add: createCloud_def split: prod.splits)

lemma runnerLoaded_loopTimerOk: "loopTimerOk (runnerLoaded rnd cw ch (runnerInit sto))"
proof -
  have "\<not> gameRunning (runnerLoaded rnd cw ch (runnerInit sto))"
    by (simp add: runnerLoaded_fields runnerInit_def)
  moreover have "timers (runnerLoaded rnd cw ch (runnerInit sto)) = []"
    by (simp add: runnerLoaded_def Let_def funpow_5 createCloud_timers runnerInit_def)
  ultimately show ?thesis by (simp add: loopTimerOk_def)
qed

lemma showRandomMole_timers:
  assumes "showRandomMole mul rnd st = Inr st'"
  shows "timers st' = timers st @ [\<lparr>handle = nextHandle st, kind = Timeout,
            delay = of_int (randomTime mul (rnd (rpos st + 1)))\<rparr>]
    \<and> nextHandle st' = nextHandle st + 1 \<and> moleTimer st' = Some (nextHandle st)
    \<and> gameTimer st' = gameTimer st \<and> gameRunning st' = gameRunning st"
  using assms by (auto simp: showRandomMole_def Let_def setTimer_def split: if_splits)

lemma whackTimersOk_cleared:
  assumes "whackTimersOk st"
  shows "filter (\<lambda>t. Some (handle t) \<noteq> moleTimer st)
           (filter (\<lambda>t. Some (handle t) \<noteq> gameTimer st) (timers st)) = []"
  using assms by (auto simp: whackTimersOk_def two_handles split: if_splits)

lemma whackReset_timers:
  "timers (whackResetGame st)
     = filter (\<lambda>t. Some (handle t) \<noteq> gameTimer st \<and> Some (handle t) \<noteq> moleTimer st) (timers st)"
  by (cases "gameTimer st"; cases "moleTimer st")
     (simp_all add: whackResetGame_def Let_def clearTimer_def)

lemma whackEnd_timers:
  "timers (whackEndGame st)
     = filter (\<lambda>t. Some (handle t) \<noteq> gameTimer st \<and> Some (handle t) \<noteq> moleTimer st) (timers st)"
  by (cases "gameTimer st"; cases "moleTimer st")
     (simp_all add: whackEndGame_def Let_def clearTimer_def)

lemma whackTimersOk_off:
  "whackTimersOk st \<Longrightarrow>
   filter (\<lambda>t. Some (handle t) \<noteq> gameTimer st \<and> Some (handle t) \<noteq> moleTimer st) (timers st) = []"
  using whackTimersOk_cleared [of st] by (simp add: conj_commute)

lemma whackStep_timersOk:
  assumes ok: "whackTimersOk st" and en: "whackEnabled e st"
    and step: "whackStep mul rnd e st = Inr st'"
  shows "whackTimersOk st'"
proof (cases e)
  case WStart
  show ?thesis
  proof (cases "gameRunning st")
    case True
    then show ?thesis using ok step WStart by (simp add: whackStep_def whackStartGame_def)
  next
    case False
    let ?st2 = "(whackResetGame st)\<lparr>gameRunning := True\<rparr>"
    let ?st3 = "(setTimer Interval 1000 ?st2)\<lparr>gameTimer := Some (nextHandle ?st2)\<rparr>"
    have s: "showRandomMole mul rnd ?st3 = Inr st'"
      using step WStart False by (simp add: whackStep_def whackStartGame_def Let_def)
    have t: "timers (whackResetGame st) = []"
      using whackTimersOk_off [OF ok] by (simp add: whackReset_timers)
    have n: "nextHandle (whackResetGame st) = nextHandle st"
      by (simp add: whackResetGame_def Let_def clearTimer_alt)
    show ?thesis
      using showRandomMole_timers [OF s] t n
      by (simp add: whackTimersOk_def setTimer_def)
  qed
next
  case WReset
  then have "st' = whackResetGame st" using step by (simp add: whackStep_def)
  moreover have "\<not> gameRunning (whackResetGame st)"
    by (simp add: whackResetGame_def Let_def clearTimer_alt)
  ultimately show ?thesis
    using whackTimersOk_off [OF ok] by (simp add: whackTimersOk_def whackReset_timers)
next
  case (WClick i)
  then have "st' = moleClick i st" using step by (simp add: whackStep_def)
  then show ?thesis
    using ok by (simp add: moleClick_def whackMole_def whackTimersOk_def Let_def split: prod.splits)
next
  case WCountdown
  then have s: "st' = gameTimerCallback st" using step by (simp add: whackStep_def)
  show ?thesis
  proof (cases "timeLeft st - 1 \<le> 0")
    case True
    then have e: "st' = whackEndGame (st\<lparr>timeLeft := timeLeft st - 1\<rparr>)"
      using s by (simp add: gameTimerCallback_def Let_def)
    have "\<not> gameRunning st'"
      by (simp add: e whackEndGame_def Let_def clearTimer_alt)
    then show ?thesis
      using whackTimersOk_off [OF ok] by (simp add: whackTimersOk_def e whackEnd_timers)
  next
    case False
    then have "st' = st\<lparr>timeLeft := timeLeft st - 1\<rparr>"
      using s by (simp add: gameTimerCallback_def Let_def)
    then show ?thesis using ok by (simp add: whackTimersOk_def)
  qed
next
  case (WMoleExpiry h)
  have en': "list_ex (\<lambda>t. handle t = h \<and> kind t = Timeout) (timers st)"
    using en WMoleExpiry by simp
  then have run: "gameRunning st"
    using ok by (auto simp: whackTimersOk_def split: if_splits)
  from ok run obtain a b where ts: "timers st = [a, b]"
    and ab: "Some (handle a) = gameTimer st" "Some (handle b) = moleTimer st"
      "kind a = Interval" "kind b = Timeout" "handle a \<noteq> handle b"
      "handle a < nextHandle st" "handle b < nextHandle st"
    by (auto simp: whackTimersOk_def map_eq_Cons_conv)
  have hb: "h = handle b"
    using en' ts ab by auto
  let ?st1 = "clearTimer (Some h) st"
  have t1: "timers ?st1 = [a]"
    using ts ab(5) hb by (simp add: clearTimer_timers)
  have f1: "gameRunning ?st1" "gameTimer ?st1 = gameTimer st" "nextHandle ?st1 = nextHandle st"
    using run by (simp_all add: clearTimer_alt)
  have s: "showRandomMole mul rnd ?st1 = Inr st'"
    using step WMoleExpiry f1(1) by (simp add: whackStep_def fireMoleTimer_def moleTimerCallback_def)
  show ?thesis
    using showRandomMole_timers [OF s] t1 f1 ab
    by (auto simp: whackTimersOk_def)
qed

lemma whackRun_timersOk:
  "whackTimersOk st \<Longrightarrow> whackFeasible mul rnd es st \<Longrightarrow> whackRun mul rnd es st = Inr st'
   \<Longrightarrow> whackTimersOk st'"
proof (induction es arbitrary: st)
  case Nil
  then show ?case by simp
next
  case (Cons e es)
  from Cons.prems(3) obtain st1 where s: "whackStep mul rnd e st = Inr st1"
    and r: "whackRun mul rnd es st1 = Inr st'"
    by (auto split: sum.splits)
  have en: "whackEnabled e st" and f: "whackFeasible mul rnd es st1"
    using Cons.prems(2) s by simp_all
  show ?case
    using Cons.IH [OF whackStep_timersOk [OF Cons.prems(1) en s] f r] .
qed

lemma whackInit_timersOk: "whackTimersOk (createMoleGrid (whackInit sto))"
  by (simp add: whackTimersOk_def createMoleGrid_def whackInit_def)

lemma snakeInit_loopTimerOk: "loopTimerOk (snakeInit sto)"
  by (simp add: loopTimerOk_def snakeInit_def)

text \<open>
  Claim C1, as stated, has every deferred callback check the running flag, so that a
  callback invoked after a reset changes nothing. The \<open>gameUpdate\<close> callbacks of Snake
  and Endless Runner do not read \<open>gameRunning\<close>: invoked on the state that \<open>resetGame\<close>
  leaves, the one moves the snake and the other counts a frame.
\<close>

theorem stale_tick_counterexample:
  "\<not> gameRunning (snakeResetGame snakeStarted)
   \<and> snake (snakeResetGame snakeStarted) = [\<lparr>x = 10, y = 10\<rparr>, \<lparr>x = 9, y = 10\<rparr>, \<lparr>x = 8, y = 10\<rparr>]
   \<and> snakeGameUpdate halfRnd 400 400 (snakeResetGame snakeStarted)
       = Some (Inr ((snakeResetGame snakeStarted)
                     \<lparr>snake := [\<lparr>x = 11, y = 10\<rparr>, \<lparr>x = 10, y = 10\<rparr>, \<lparr>x = 9, y = 10\<rparr>]\<rparr>))
   \<and> snakeGameUpdate halfRnd 400 400 (snakeResetGame snakeStarted)
       \<noteq> Some (Inr (snakeResetGame snakeStarted))
   \<and> \<not> gameRunning (runnerResetGame (runnerStartGame (runnerLoaded halfRnd 800 300 (runnerInit None))))
   \<and> frameCount (runnerResetGame (runnerStartGame (runnerLoaded halfRnd 800 300 (runnerInit None)))) = 0
   \<and> map_option frameCount
        (runnerGameUpdate doubleAddSample minus halfRnd 800
          (runnerResetGame (runnerStartGame (runnerLoaded halfRnd 800 300 (runnerInit None)))))
       = Some 1"
  by (simp add: snakeStarted_def snakeResetGame_def snakeGameUpdate_def checkCollision_def
      moveHead_def runner_eval)

text \<open>
  Claim C1, amended: \<open>resetGame\<close> cancels the timers whose handles the game holds, in
  Snake, Endless Runner and Whack-a-Mole (it removes exactly those from the timers of the
  page), and in every run of a game from the load of its page no timer at all is left
  after \<open>resetGame\<close>: no deferred callback of the session remains scheduled. (In
  Whack-a-Mole a run is one in which the mole timeout expires only while it is pending.)
  The callback of the mole timer of Whack-a-Mole checks the running flag: invoked after a
  reset (or on any stopped session) it changes nothing. The countdown callback of
  Whack-a-Mole invoked after a reset changes only \<open>timeLeft\<close>.
\<close>

theorem stale_mole_callback_noop:
  "moleTimerCallback mul rnd (whackResetGame w) = Inr (whackResetGame w)
   \<and> (\<not> gameRunning w \<longrightarrow> moleTimerCallback mul rnd w = Inr w)
   \<and> gameTimerCallback (whackResetGame w) = (whackResetGame w)\<lparr>timeLeft := 29\<rparr>
   \<and> timers (whackResetGame w)
       = filter (\<lambda>t. Some (handle t) \<noteq> gameTimer w \<and> Some (handle t) \<noteq> moleTimer w) (timers w)
   \<and> timers (snakeResetGame s) = filter (\<lambda>t. Some (handle t) \<noteq> gameLoop s) (timers s)
   \<and> timers (runnerResetGame r) = filter (\<lambda>t. Some (handle t) \<noteq> gameLoop r) (timers r)
   \<and> \<not> isActive (gameTimer (whackResetGame w)) (whackResetGame w)
   \<and> \<not> isActive (moleTimer (whackResetGame w)) (whackResetGame w)
   \<and> \<not> isActive (gameLoop (snakeResetGame s)) (snakeResetGame s)
   \<and> \<not> isActive (gameLoop (runnerResetGame r)) (runnerResetGame r)
   \<and> (whackFeasible mul rnd wes (createMoleGrid (whackInit sto))
        \<and> whackRun mul rnd wes (createMoleGrid (whackInit sto)) = Inr w'
      \<longrightarrow> timers (whackResetGame w') = [])
   \<and> (snakeRun rnd cw ch ses (snakeInit sto) = Some (Inr s')
      \<longrightarrow> timers (snakeResetGame s') = [])
   \<and> (runnerRun add sub rnd cw res (runnerLoaded rnd0 cw ch (runnerInit sto)) = Some r'
      \<longrightarrow> timers (runnerResetGame r') = [])"
proof -
  have a: "moleTimerCallback mul rnd (whackResetGame w) = Inr (whackResetGame w)"
    "\<not> gameRunning w \<longrightarrow> moleTimerCallback mul rnd w = Inr w"
    by (simp_all add: moleTimerCallback_def whackResetGame_def Let_def clearTimer_alt)
  have b: "gameTimerCallback (whackResetGame w) = (whackResetGame w)\<lparr>timeLeft := 29\<rparr>"
    by (simp add: gameTimerCallback_def whackResetGame_def Let_def clearTimer_alt)
  have c: "timers (whackResetGame w)
       = filter (\<lambda>t. Some (handle t) \<noteq> gameTimer w \<and> Some (handle t) \<noteq> moleTimer w) (timers w)"
    by (rule whackReset_timers)
  have d: "timers (snakeResetGame s) = filter (\<lambda>t. Some (handle t) \<noteq> gameLoop s) (timers s)"
    "timers (runnerResetGame r) = filter (\<lambda>t. Some (handle t) \<noteq> gameLoop r) (timers r)"
    by (simp_all add: snakeResetGame_def runnerResetGame_def clearTimer_timers)
  have e: "\<not> isActive (gameTimer (whackResetGame w)) (whackResetGame w)
      \<and> \<not> isActive (moleTimer (whackResetGame w)) (whackResetGame w)"
    by (cases "gameTimer w"; cases "moleTimer w")
       (auto simp: whackResetGame_def clearTimer_def isActive_def Let_def)
  have f: "\<not> isActive (gameLoop (snakeResetGame s)) (snakeResetGame s)"
    by (cases "gameLoop s") (auto simp: snakeResetGame_def clearTimer_def isActive_def)
  have g: "\<not> isActive (gameLoop (runnerResetGame r)) (runnerResetGame r)"
    by (cases "gameLoop r") (auto simp: runnerResetGame_def clearTimer_def isActive_def)
  have h: "timers (whackResetGame w') = []"
    if "whackFeasible mul rnd wes (createMoleGrid (whackInit sto))"
      "whackRun mul rnd wes (createMoleGrid (whackInit sto)) = Inr w'"
    using whackTimersOk_off [OF whackRun_timersOk [OF whackInit_timersOk that]]
    by (simp add: whackReset_timers)
  have i: "timers (snakeResetGame s') = []"
    if "snakeRun rnd cw ch ses (snakeInit sto) = Some (Inr s')"
    using loopTimerOk_cleared [OF snakeRun_loopTimerOk [OF snakeInit_loopTimerOk that]]
    by (simp add: snakeResetGame_def)
  have j: "timers (runnerResetGame r') = []"
    if "runnerRun add sub rnd cw res (runnerLoaded rnd0 cw ch (runnerInit sto)) = Some r'"
    using loopTimerOk_cleared [OF runnerRun_loopTimerOk [OF runnerLoaded_loopTimerOk that]]
    by (simp add: runnerResetGame_def)
  show ?thesis using a b c d e f g h i j by blast
qed

text \<open>
  In Whack-a-Mole a start, a hit and an expiry of the mole timer leave the countdown
  and the next mole timer pending, in Snake and Endless Runner a start and a tick leave
  the interval of the game loop; after \<open>resetGame\<close> nothing is pending, and the callback
  of the mole timer changes nothing.
\<close>

theorem stale_mole_callback_noop_witness:
  "(\<exists>w'. whackFeasible times thirdRnd [WStart, WClick 3, WMoleExpiry 2]
             (createMoleGrid (whackInit None))
        \<and> whackRun times thirdRnd [WStart, WClick 3, WMoleExpiry 2]
             (createMoleGrid (whackInit None)) = Inr w'
        \<and> timers w' = [\<lparr>handle = 1, kind = Interval, delay = 1000\<rparr>,
                        \<lparr>handle = 3, kind = Timeout, delay = 900\<rparr>]
        \<and> score w' = 1
        \<and> timers (whackResetGame w') = []
        \<and> moleTimerCallback times thirdRnd (whackResetGame w') = Inr (whackResetGame w'))
   \<and> (\<exists>s'. snakeRun halfRnd 400 400 [SStart, STick] (snakeInit None) = Some (Inr s')
        \<and> timers s' = [\<lparr>handle = 1, kind = Interval, delay = 100\<rparr>]
        \<and> timers (snakeResetGame s') = [])
   \<and> (\<exists>r'. runnerRun doubleAddSample minus halfRnd 800 [RStart, RFrame]
               (runnerLoaded halfRnd 800 300 (runnerInit None)) = Some r'
        \<and> timers r' = [\<lparr>handle = 1, kind = Interval, delay = 1000 / 60\<rparr>]
        \<and> timers (runnerResetGame r') = [])
   \<and> moleTimerCallback times thirdRnd (createMoleGrid (whackInit None))
       = Inr (createMoleGrid (whackInit None))"
proof -
  let ?w = "createMoleGrid (whackInit None)"
  let ?wes = "[WStart, WClick 3, WMoleExpiry 2]"
  let ?w' = "projr (whackRun times thirdRnd ?wes ?w)"
  have w1: "whackFeasible times thirdRnd ?wes ?w"
    by (simp add: whack_eval)
  have w2: "whackRun times thirdRnd ?wes ?w = Inr ?w'"
    by (simp add: whack_eval)
  have w3: "timers ?w' = [\<lparr>handle = 1, kind = Interval, delay = 1000\<rparr>,
                        \<lparr>handle = 3, kind = Timeout, delay = 900\<rparr>]" "score ?w' = 1"
    by (simp_all add: whack_eval)
  have w4: "timers (whackResetGame ?w') = []"
    using stale_mole_callback_noop [where mul = times and rnd = thirdRnd and wes = ?wes
        and sto = None and w' = ?w'] w1 w2 by blast
  have w5: "moleTimerCallback times thirdRnd (whackResetGame ?w') = Inr (whackResetGame ?w')"
    using stale_mole_callback_noop [where mul = times and rnd = thirdRnd and w = ?w'] by blast
  have n: "\<not> gameRunning ?w"
    by (simp add: createMoleGrid_def whackInit_def)
  have w6: "moleTimerCallback times thirdRnd ?w = Inr ?w"
    using stale_mole_callback_noop [where mul = times and rnd = thirdRnd and w = ?w] n by blast
  let ?ses = "[SStart, STick]"
  let ?s' = "projr (the (snakeRun halfRnd 400 400 ?ses (snakeInit None)))"
  have s1: "snakeRun halfRnd 400 400 ?ses (snakeInit None) = Some (Inr ?s')"
    "timers ?s' = [\<lparr>handle = 1, kind = Interval, delay = 100\<rparr>]"
    by (simp_all add: snakeStep_def snakeStarted_reached snakeGameUpdate_def checkCollision_def
        moveHead_def snakeStarted_def Let_def)
  have s2: "timers (snakeResetGame ?s') = []"
    using stale_mole_callback_noop [where rnd = halfRnd and cw = 400 and ch = 400
        and ses = ?ses and sto = None and s' = ?s'] s1(1) by blast
  let ?res = "[RStart, RFrame]"
  let ?r' = "the (runnerRun doubleAddSample minus halfRnd 800 ?res (runnerLoaded halfRnd 800 300 (runnerInit None)))"
  have r1: "runnerRun doubleAddSample minus halfRnd 800 ?res (runnerLoaded halfRnd 800 300 (runnerInit None)) = Some ?r'"
    "timers ?r' = [\<lparr>handle = 1, kind = Interval, delay = 1000 / 60\<rparr>]"
    by (simp_all add: runner_eval)
  have r2: "timers (runnerResetGame ?r') = []"
    using stale_mole_callback_noop [where rnd = halfRnd and cw = 800 and ch = 300
        and ?rnd0.0 = halfRnd and res = ?res and sto = None and r' = ?r'] r1(1) by blast
  have W: "\<exists>w'. whackFeasible times thirdRnd ?wes ?w
        \<and> whackRun times thirdRnd ?wes ?w = Inr w'
        \<and> timers w' = [\<lparr>handle = 1, kind = Interval, delay = 1000\<rparr>,
                        \<lparr>handle = 3, kind = Timeout, delay = 900\<rparr>]
        \<and> score w' = 1
        \<and> timers (whackResetGame w') = []
        \<and> moleTimerCallback times thirdRnd (whackResetGame w') = Inr (whackResetGame w')"
    using w1 w2 w3 w4 w5 by (intro exI [of _ ?w']) blast
  have S: "\<exists>s'. snakeRun halfRnd 400 400 ?ses (snakeInit None) = Some (Inr s')
        \<and> timers s' = [\<lparr>handle = 1, kind = Interval, delay = 100\<rparr>]
        \<and> timers (snakeResetGame s') = []"
    using s1 s2 by (intro exI [of _ ?s']) blast
  have R: "\<exists>r'. runnerRun doubleAddSample minus halfRnd 800 ?res
               (runnerLoaded halfRnd 800 300 (runnerInit None)) = Some r'
        \<and> timers r' = [\<lparr>handle = 1, kind = Interval, delay = 1000 / 60\<rparr>]
        \<and> timers (runnerResetGame r') = []"
    using r1 r2 by (intro exI [of _ ?r']) blast
  show ?thesis using W S R w6 by blast
qed

end
